theory Spec2Isabelle
  imports Complex_Main
begin

text \<open>
  A shallow embedding of the document-package builder of md2word, a converter from
  Markdown to Word documents written in Go: the style sheet generator, the block model
  (paragraphs, runs, hyperlinks), the table model, and the relationship registry and
  package builder of package \<^verbatim>\<open>docx\<close>, with the converter's treatment of links. Each Go
  function is a HOL function of the same name; a method \<^verbatim>\<open>T.f\<close> is \<open>T_f\<close>, and the
  methods of \<^verbatim>\<open>Document\<close> keep their bare names. The markup
  templates are the raw string literals of the source, line by line. What a function
  changes through a pointer is returned with its result.
\<close>

section \<open>Strings and formatting\<close>

text \<open>
  A Go \<^verbatim>\<open>string\<close> is a sequence of bytes, here a \<^typ>\<open>string\<close> (a list of
  8-bit characters). The functions of package \<^verbatim>\<open>strings\<close> that the document builder
  calls are written out with their library meaning.
\<close>

definition HasPrefix :: "string \<Rightarrow> string \<Rightarrow> bool" where
  "HasPrefix s pre = (length pre \<le> length s \<and> take (length pre) s = pre)"

definition HasSuffix :: "string \<Rightarrow> string \<Rightarrow> bool" where
  "HasSuffix s suf = (length suf \<le> length s \<and> drop (length s - length suf) s = suf)"

fun Contains :: "string \<Rightarrow> string \<Rightarrow> bool" where
  "Contains [] sub = (sub = [])"
| "Contains (c # cs) sub = (HasPrefix (c # cs) sub \<or> Contains cs sub)"

definition TrimPrefix :: "string \<Rightarrow> string \<Rightarrow> string" where
  "TrimPrefix s pre = (if HasPrefix s pre then drop (length pre) s else s)"

text \<open>
  \<^verbatim>\<open>strings.Split(s, sep)\<close> for a separator of one byte, the only way the builder calls
  it: the pieces between the occurrences of the separator, one more than there are
  occurrences.
\<close>

fun Split :: "string \<Rightarrow> char \<Rightarrow> string list" where
  "Split [] sep = [[]]"
| "Split (c # cs) sep =
     (if c = sep then [] # Split cs sep
      else (case Split cs sep of
              [] \<Rightarrow> [[c]]
            | l # ls \<Rightarrow> (c # l) # ls))"

text \<open>\<^verbatim>\<open>fmt.Sprintf("%d", n)\<close>: the decimal digits of an integer, with a minus sign.\<close>

definition digit_char :: "nat \<Rightarrow> char" where
  "digit_char d = ''0123456789'' ! d"

fun digits :: "nat \<Rightarrow> string" where
  "digits n = (if n < 10 then [digit_char n] else digits (n div 10) @ [digit_char (n mod 10)])"

declare digits.simps [simp del]

definition fmt_d :: "int \<Rightarrow> string" where
  "fmt_d i = (if i < 0 then CHR ''-'' # digits (nat (- i)) else digits (nat i))"

subsection \<open>Floating point\<close>

text \<open>
  A \<^verbatim>\<open>float64\<close> is a finite double, an infinity or a NaN; a finite double is
  \<open>Finite x\<close> for the rational number \<open>x\<close> it denotes (the two zeros are both
  \<open>Finite 0\<close>: nothing the builder does tells them apart). The builder does three
  things with a \<^verbatim>\<open>float64\<close>: it compares it with zero, it doubles it, and it converts
  the double to \<^verbatim>\<open>int\<close>.
\<close>

datatype float64 = Finite rat | PosInf | NegInf | NaN

text \<open>\<^verbatim>\<open>x > 0\<close>: a comparison with a NaN is false.\<close>

fun float_gt_zero :: "float64 \<Rightarrow> bool" where
  "float_gt_zero (Finite x) = (0 < x)"
| "float_gt_zero PosInf = True"
| "float_gt_zero NegInf = False"
| "float_gt_zero NaN = False"

text \<open>
  \<^verbatim>\<open>x * 2\<close>: the double of a finite double is exact, unless it is beyond the largest
  double \<^verbatim>\<open>math.MaxFloat64\<close>; then it is an infinity.
\<close>

definition MaxFloat64 :: rat where
  "MaxFloat64 = 2 ^ 1024 - 2 ^ 971"

fun float_times_two :: "float64 \<Rightarrow> float64" where
  "float_times_two (Finite x) =
     (if MaxFloat64 < x * 2 then PosInf
      else if x * 2 < - MaxFloat64 then NegInf
      else Finite (x * 2))"
| "float_times_two PosInf = PosInf"
| "float_times_two NegInf = NegInf"
| "float_times_two NaN = NaN"

text \<open>
  \<^verbatim>\<open>int(x)\<close>: the conversion discards the fraction (it rounds towards zero). Go's
  \<^verbatim>\<open>int\<close> is taken to be 64 bits wide. When the result does not fit, and for an
  infinity or a NaN, the conversion still succeeds, and the language leaves the value to
  the implementation: it is \<open>implementation_int\<close>, of which nothing is known.
\<close>

definition round_to_zero :: "rat \<Rightarrow> int" where
  "round_to_zero x = (if 0 \<le> x then \<lfloor>x\<rfloor> else \<lceil>x\<rceil>)"

definition is_int64 :: "int \<Rightarrow> bool" where
  "is_int64 i = (- (2 ^ 63) \<le> i \<and> i < 2 ^ 63)"

definition implementation_int :: "float64 \<Rightarrow> int" where
  "implementation_int = undefined"

fun float_to_int :: "float64 \<Rightarrow> int" where
  "float_to_int (Finite x) =
     (if is_int64 (round_to_zero x) then round_to_zero x else implementation_int (Finite x))"
| "float_to_int PosInf = implementation_int PosInf"
| "float_to_int NegInf = implementation_int NegInf"
| "float_to_int NaN = implementation_int NaN"

definition FontSizeToTwips :: "float64 \<Rightarrow> int" where
  "FontSizeToTwips pt = float_to_int (float_times_two pt)"

section \<open>XML escaping\<close>

text \<open>
  \<^verbatim>\<open>XMLEscape\<close> hands the text to \<^verbatim>\<open>xml.EscapeText\<close> of Go's standard library
  (\<^verbatim>\<open>encoding/xml\<close>), which is modelled here from the library's source. It walks the
  bytes rune by rune (\<^verbatim>\<open>utf8.DecodeRune\<close>) and replaces the quote by \<^verbatim>\<open>&#34;\<close>, the
  apostrophe by \<^verbatim>\<open>&#39;\<close>, \<^verbatim>\<open>&\<close> by \<^verbatim>\<open>&amp;\<close>, \<^verbatim>\<open><\<close> by \<^verbatim>\<open>&lt;\<close>, \<^verbatim>\<open>>\<close> by \<^verbatim>\<open>&gt;\<close>,
  the tab by \<^verbatim>\<open>&#x9;\<close>, the newline by \<^verbatim>\<open>&#xA;\<close> and the carriage return by \<^verbatim>\<open>&#xD;\<close>
  (the library's \<^verbatim>\<open>escQuot\<close>, \<^verbatim>\<open>escApos\<close>, \<^verbatim>\<open>escAmp\<close>, \<^verbatim>\<open>escLT\<close>, \<^verbatim>\<open>escGT\<close>,
  \<^verbatim>\<open>escTab\<close>, \<^verbatim>\<open>escNL\<close>, \<^verbatim>\<open>escCR\<close>); a rune outside the XML character range, or a
  byte that is not valid UTF-8, becomes U+FFFD (\<^verbatim>\<open>escFFFD\<close>); every other rune is
  copied. The exported \<^verbatim>\<open>EscapeText\<close> is \<^verbatim>\<open>escapeText(w, s, true)\<close>: the third argument
  is \<^verbatim>\<open>escapeNewline\<close>, so the newline is among the runes replaced.
\<close>

definition RuneError :: nat where
  "RuneError = 0xFFFD"

text \<open>
  \<^verbatim>\<open>utf8.DecodeRune\<close>: the rune at the head of the bytes and its width. The library's
  tables \<^verbatim>\<open>first\<close> and \<^verbatim>\<open>acceptRanges\<close> are written as the byte ranges they hold:
  a lead byte \<^verbatim>\<open>C2..DF\<close> starts two bytes, \<^verbatim>\<open>E0..EF\<close> three, \<^verbatim>\<open>F0..F4\<close> four; the second
  byte is in \<^verbatim>\<open>80..BF\<close>, narrowed after \<^verbatim>\<open>E0\<close>, \<^verbatim>\<open>ED\<close>, \<^verbatim>\<open>F0\<close> and \<^verbatim>\<open>F4\<close>; an invalid
  or truncated sequence decodes as \<^verbatim>\<open>(RuneError, 1)\<close>.
\<close>

definition rune_size :: "nat \<Rightarrow> nat" where
  "rune_size p0 = (if p0 < 0xE0 then 2 else if p0 < 0xF0 then 3 else 4)"

definition accept_lo :: "nat \<Rightarrow> nat" where
  "accept_lo p0 = (if p0 = 0xE0 then 0xA0 else if p0 = 0xF0 then 0x90 else 0x80)"

definition accept_hi :: "nat \<Rightarrow> nat" where
  "accept_hi p0 = (if p0 = 0xED then 0x9F else if p0 = 0xF4 then 0x8F else 0xBF)"

fun DecodeRune :: "string \<Rightarrow> nat \<times> nat" where
  "DecodeRune [] = (RuneError, 0)"
| "DecodeRune (c0 # p) =
     (let p0 = (of_char c0 :: nat) in
      if p0 < 0x80 then (p0, 1)
      else if p0 < 0xC2 \<or> 0xF4 < p0 then (RuneError, 1)
      else if Suc (length p) < rune_size p0 then (RuneError, 1)
      else
        let b1 = (of_char (p ! 0) :: nat) in
        if b1 < accept_lo p0 \<or> accept_hi p0 < b1 then (RuneError, 1)
        else if rune_size p0 \<le> 2 then ((p0 mod 0x20) * 0x40 + b1 mod 0x40, 2)
        else
          let b2 = (of_char (p ! 1) :: nat) in
          if b2 < 0x80 \<or> 0xBF < b2 then (RuneError, 1)
          else if rune_size p0 \<le> 3
            then ((p0 mod 0x10) * 0x1000 + (b1 mod 0x40) * 0x40 + b2 mod 0x40, 3)
          else
            let b3 = (of_char (p ! 2) :: nat) in
            if b3 < 0x80 \<or> 0xBF < b3 then (RuneError, 1)
            else ((p0 mod 0x08) * 0x40000 + (b1 mod 0x40) * 0x1000
                    + (b2 mod 0x40) * 0x40 + b3 mod 0x40, 4))"

definition isInCharacterRange :: "nat \<Rightarrow> bool" where
  "isInCharacterRange r =
     (r = 0x09 \<or> r = 0x0A \<or> r = 0x0D
      \<or> (0x20 \<le> r \<and> r \<le> 0xD7FF)
      \<or> (0xE000 \<le> r \<and> r \<le> 0xFFFD)
      \<or> (0x10000 \<le> r \<and> r \<le> 0x10FFFF))"

text \<open>
  The \<^verbatim>\<open>switch\<close> of \<^verbatim>\<open>escapeText\<close>: the replacement for a rune, or \<open>None\<close> when the
  rune's own bytes are copied.
\<close>

definition escape_of :: "nat \<Rightarrow> nat \<Rightarrow> string option" where
  \<open>escape_of r width =
     (if r = 0x22 then Some ''&#34;''
      else if r = 0x27 then Some ''&#39;''
      else if r = 0x26 then Some ''&amp;''
      else if r = 0x3C then Some ''&lt;''
      else if r = 0x3E then Some ''&gt;''
      else if r = 0x09 then Some ''&#x9;''
      else if r = 0x0A then Some ''&#xA;''
      else if r = 0x0D then Some ''&#xD;''
      else if \<not> isInCharacterRange r \<or> (r = 0xFFFD \<and> width = 1)
        then Some [CHR 0xEF, CHR 0xBF, CHR 0xBD]
      else None)\<close>

fun escapeText :: "string \<Rightarrow> string" where
  "escapeText [] = []"
| "escapeText (c # cs) =
     (let (r, width) = DecodeRune (c # cs) in
      (case escape_of r width of
         Some esc \<Rightarrow> esc
       | None \<Rightarrow> take width (c # cs))
      @ escapeText (drop (width - 1) cs))"

definition XMLEscape :: "string \<Rightarrow> string" where
  "XMLEscape s = escapeText s"

section \<open>Configuration (config.go)\<close>

record StyleConfig =
  Font :: string
  Size :: float64
  Bold :: bool
  Italic :: bool
  Color :: string
  Background :: string
  LineSpacing :: int
  LineHeight :: int
  SpaceBefore :: int
  SpaceAfter :: int
  FirstLineIndent :: int

record TableConfig =
  Font :: string
  Size :: float64
  Borders :: bool
  HeaderBold :: bool

record MermaidConfig =
  Enabled :: bool
  CLI :: string
  Theme :: string

record MathConfig =
  Enabled :: bool
  Render :: string

record ImageConfig =
  MaxWidth :: int
  DownloadTimeout :: int

record StylesConfig =
  Body :: StyleConfig
  Heading1 :: StyleConfig
  Heading2 :: StyleConfig
  Heading3 :: StyleConfig
  Heading4 :: StyleConfig
  Heading5 :: StyleConfig
  Heading6 :: StyleConfig
  Heading7 :: StyleConfig
  Heading8 :: StyleConfig
  Heading9 :: StyleConfig
  Code :: StyleConfig
  CodeBlock :: StyleConfig

record Config =
  Styles :: StylesConfig
  Table :: TableConfig
  Mermaid :: MermaidConfig
  Math :: MathConfig
  Images :: ImageConfig

definition GetHeadingStyle :: "Config \<Rightarrow> int \<Rightarrow> StyleConfig" where
  "GetHeadingStyle c level =
     (if level = 1 then Heading1 (Styles c)
      else if level = 2 then Heading2 (Styles c)
      else if level = 3 then Heading3 (Styles c)
      else if level = 4 then Heading4 (Styles c)
      else if level = 5 then Heading5 (Styles c)
      else if level = 6 then Heading6 (Styles c)
      else if level = 7 then Heading7 (Styles c)
      else if level = 8 then Heading8 (Styles c)
      else if level = 9 then Heading9 (Styles c)
      else Body (Styles c))"

section \<open>Style sheet generator (styles.go)\<close>

text \<open>The document defaults and the \<^verbatim>\<open>Normal\<close> style, both from the body style.\<close>

definition styles_docDefaults :: "Config \<Rightarrow> string" where
  \<open>styles_docDefaults cfg =
       ''<?xml version="1.0" encoding="UTF-8" standalone="yes"?>'' @
       ''\<newline><w:styles xmlns:w="http://schemas.openxmlformats.org/wordprocessingml/2006/main">'' @
       ''\<newline>    <w:docDefaults>'' @
       ''\<newline>        <w:rPrDefault>'' @
       ''\<newline>            <w:rPr>'' @
       ''\<newline>                <w:rFonts w:ascii="'' @ StyleConfig.Font (Body (Styles cfg)) @
       ''" w:eastAsia="'' @ StyleConfig.Font (Body (Styles cfg)) @
       ''" w:hAnsi="'' @ StyleConfig.Font (Body (Styles cfg)) @
       ''"/>'' @
       ''\<newline>                <w:sz w:val="'' @
       fmt_d (float_to_int (float_times_two (StyleConfig.Size (Body (Styles cfg))))) @
       ''"/>'' @
       ''\<newline>                <w:szCs w:val="'' @
       fmt_d (float_to_int (float_times_two (StyleConfig.Size (Body (Styles cfg))))) @
       ''"/>'' @
       ''\<newline>            </w:rPr>'' @
       ''\<newline>        </w:rPrDefault>'' @
       ''\<newline>        <w:pPrDefault>'' @
       ''\<newline>            <w:pPr>'' @
       ''\<newline>                <w:spacing w:after="0" w:line="276" w:lineRule="auto"/>'' @
       ''\<newline>            </w:pPr>'' @
       ''\<newline>        </w:pPrDefault>'' @
       ''\<newline>    </w:docDefaults>''\<close>

definition styles_Normal :: "Config \<Rightarrow> string" where
  \<open>styles_Normal cfg =
       ''\<newline>    <w:style w:type="paragraph" w:default="1" w:styleId="Normal">'' @
       ''\<newline>        <w:name w:val="Normal"/>'' @
       ''\<newline>        <w:rPr>'' @
       ''\<newline>            <w:rFonts w:ascii="'' @ StyleConfig.Font (Body (Styles cfg)) @
       ''" w:eastAsia="'' @ StyleConfig.Font (Body (Styles cfg)) @
       ''" w:hAnsi="'' @ StyleConfig.Font (Body (Styles cfg)) @
       ''"/>'' @
       ''\<newline>            <w:sz w:val="'' @
       fmt_d (float_to_int (float_times_two (StyleConfig.Size (Body (Styles cfg))))) @
       ''"/>'' @
       ''\<newline>            <w:szCs w:val="'' @
       fmt_d (float_to_int (float_times_two (StyleConfig.Size (Body (Styles cfg))))) @
       ''"/>'' @
       ''\<newline>        </w:rPr>'' @
       ''\<newline>    </w:style>''\<close>

text \<open>
  The body of the loop over the heading levels: the paragraph style written for
  \<open>level\<close> from the style \<open>style\<close> that \<^verbatim>\<open>GetHeadingStyle\<close> returned.
\<close>

definition heading_style_xml :: "int \<Rightarrow> StyleConfig \<Rightarrow> string" where
  \<open>heading_style_xml level style =
     (let styleID = ''Heading'' @ fmt_d level;
          outlineLvl = level - 1
      in
       ''\<newline>    <w:style w:type="paragraph" w:styleId="'' @ styleID @
       ''">'' @
       ''\<newline>        <w:name w:val="heading '' @ fmt_d level @
       ''"/>'' @
       ''\<newline>        <w:basedOn w:val="Normal"/>'' @
       ''\<newline>        <w:next w:val="Normal"/>'' @
       ''\<newline>        <w:pPr>'' @
       ''\<newline>            <w:keepNext/>'' @
       ''\<newline>            <w:keepLines/>'' @
       ''\<newline>            <w:spacing w:before="240" w:after="120"/>'' @
       ''\<newline>            <w:outlineLvl w:val="'' @ fmt_d outlineLvl @
       ''"/>'' @
       ''\<newline>        </w:pPr>'' @
       ''\<newline>        <w:rPr>'' @
       ''\<newline>            <w:rFonts w:ascii="'' @ StyleConfig.Font style @
       ''" w:eastAsia="'' @ StyleConfig.Font style @
       ''" w:hAnsi="'' @ StyleConfig.Font style @
       ''"/>'' @
       ''\<newline>            <w:sz w:val="'' @
       fmt_d (float_to_int (float_times_two (StyleConfig.Size style))) @
       ''"/>'' @
       ''\<newline>            <w:szCs w:val="'' @
       fmt_d (float_to_int (float_times_two (StyleConfig.Size style))) @
       ''"/>'' @
       (if StyleConfig.Bold style then
          ''\<newline>            <w:b/>'' @
          ''\<newline>            <w:bCs/>''
        else []) @
       ''\<newline>        </w:rPr>'' @
       ''\<newline>    </w:style>'')\<close>

text \<open>The loop \<^verbatim>\<open>for level := 1; level <= 9; level++\<close>, entered at \<open>level\<close>.\<close>

function heading_styles_from :: "Config \<Rightarrow> int \<Rightarrow> string" where
  "heading_styles_from cfg level =
     (if level \<le> 9
      then heading_style_xml level (GetHeadingStyle cfg level)
             @ heading_styles_from cfg (level + 1)
      else [])"
  by pat_completeness auto
termination
  by (relation "measure (\<lambda>(cfg, level). nat (10 - level))") auto

declare heading_styles_from.simps [simp del]

definition styles_Code :: "Config \<Rightarrow> string" where
  \<open>styles_Code cfg =
       ''\<newline>    <w:style w:type="paragraph" w:styleId="Code">'' @
       ''\<newline>        <w:name w:val="Code"/>'' @
       ''\<newline>        <w:basedOn w:val="Normal"/>'' @
       ''\<newline>        <w:pPr>'' @
       ''\<newline>            <w:shd w:val="clear" w:color="auto" w:fill="F5F5F5"/>'' @
       ''\<newline>            <w:spacing w:before="120" w:after="120"/>'' @
       ''\<newline>        </w:pPr>'' @
       ''\<newline>        <w:rPr>'' @
       ''\<newline>            <w:rFonts w:ascii="Consolas" w:hAnsi="Consolas" w:cs="Consolas"/>'' @
       ''\<newline>            <w:sz w:val="'' @
       fmt_d (float_to_int (float_times_two (StyleConfig.Size (Code (Styles cfg))))) @
       ''"/>'' @
       ''\<newline>            <w:szCs w:val="'' @
       fmt_d (float_to_int (float_times_two (StyleConfig.Size (Code (Styles cfg))))) @
       ''"/>'' @
       ''\<newline>        </w:rPr>'' @
       ''\<newline>    </w:style>''\<close>

definition styles_TableGrid :: string where
  \<open>styles_TableGrid =
       ''\<newline>    <w:style w:type="table" w:styleId="TableGrid">'' @
       ''\<newline>        <w:name w:val="Table Grid"/>'' @
       ''\<newline>        <w:basedOn w:val="TableNormal"/>'' @
       ''\<newline>        <w:tblPr>'' @
       ''\<newline>            <w:tblBorders>'' @
       ''\<newline>                <w:top w:val="single" w:sz="4" w:space="0" w:color="auto"/>'' @
       ''\<newline>                <w:left w:val="single" w:sz="4" w:space="0" w:color="auto"/>'' @
       ''\<newline>                <w:bottom w:val="single" w:sz="4" w:space="0" w:color="auto"/>'' @
       ''\<newline>                <w:right w:val="single" w:sz="4" w:space="0" w:color="auto"/>'' @
       ''\<newline>                <w:insideH w:val="single" w:sz="4" w:space="0" w:color="auto"/>'' @
       ''\<newline>                <w:insideV w:val="single" w:sz="4" w:space="0" w:color="auto"/>'' @
       ''\<newline>            </w:tblBorders>'' @
       ''\<newline>        </w:tblPr>'' @
       ''\<newline>    </w:style>''\<close>

definition GenerateStyles :: "Config \<Rightarrow> string" where
  \<open>GenerateStyles cfg =
     styles_docDefaults cfg @ styles_Normal cfg @ heading_styles_from cfg 1
       @ styles_Code cfg @ styles_TableGrid @ ''\<newline></w:styles>''\<close>

section \<open>Block model: runs, hyperlinks, paragraphs (paragraph.go)\<close>

record Run =
  Text :: string
  Bold :: bool
  Italic :: bool
  Underline :: bool
  Strike :: bool
  FontName :: string
  FontSize :: float64
  Color :: string
  Highlight :: string
  IsCode :: bool
  IsImage :: bool
  ImageRelID :: string
  ImageWidth :: int
  ImageHeight :: int

record Hyperlink =
  ID :: string
  Runs :: "Run list"

datatype ParagraphChild = RunChild Run | HyperlinkChild Hyperlink

record Paragraph =
  StyleID :: string
  Children :: "ParagraphChild list"
  Align :: string
  Indent :: int
  SpacingB :: int
  SpacingA :: int
  Shading :: string
  Border :: bool
  HorizontalRule :: bool
  LineHeight :: int
  FirstLineIndent :: int

text \<open>The zero value of \<^verbatim>\<open>Run\<close>, from which the constructors below set fields.\<close>

definition zero_Run :: Run where
  "zero_Run = \<lparr> Text = [], Bold = False, Italic = False, Underline = False, Strike = False,
      FontName = [], FontSize = Finite 0, Color = [], Highlight = [], IsCode = False,
      IsImage = False, ImageRelID = [], ImageWidth = 0, ImageHeight = 0 \<rparr>"

definition NewParagraph :: "string \<Rightarrow> Paragraph" where
  "NewParagraph styleID = \<lparr> StyleID = styleID, Children = [], Align = [], Indent = 0,
      SpacingB = 0, SpacingA = 0, Shading = [], Border = False, HorizontalRule = False,
      LineHeight = 0, FirstLineIndent = 0 \<rparr>"

text \<open>
  The run-container operations append the new run; the pointer to it that Go returns is
  the last child of the container returned here.
\<close>

definition Paragraph_AddRun :: "Paragraph \<Rightarrow> string \<Rightarrow> Paragraph" where
  "Paragraph_AddRun p text' =
     p\<lparr>Children := Children p @ [RunChild (zero_Run\<lparr>Text := text'\<rparr>)]\<rparr>"

definition Paragraph_AddFormattedRun ::
  "Paragraph \<Rightarrow> string \<Rightarrow> bool \<Rightarrow> bool \<Rightarrow> bool \<Rightarrow> Paragraph" where
  "Paragraph_AddFormattedRun p text' bold italic code =
     p\<lparr>Children := Children p @
        [RunChild (zero_Run\<lparr>Text := text', Run.Bold := bold, Run.Italic := italic,
                              IsCode := code\<rparr>)]\<rparr>"

definition Paragraph_AddImageRun :: "Paragraph \<Rightarrow> string \<Rightarrow> int \<Rightarrow> int \<Rightarrow> Paragraph" where
  "Paragraph_AddImageRun p relID width height =
     p\<lparr>Children := Children p @
        [RunChild (zero_Run\<lparr>IsImage := True, ImageRelID := relID, ImageWidth := width,
                              ImageHeight := height\<rparr>)]\<rparr>"

definition Hyperlink_AddRun :: "Hyperlink \<Rightarrow> string \<Rightarrow> Hyperlink" where
  "Hyperlink_AddRun h text' = h\<lparr>Runs := Runs h @ [zero_Run\<lparr>Text := text'\<rparr>]\<rparr>"

definition Hyperlink_AddFormattedRun ::
  "Hyperlink \<Rightarrow> string \<Rightarrow> bool \<Rightarrow> bool \<Rightarrow> bool \<Rightarrow> Hyperlink" where
  "Hyperlink_AddFormattedRun h text' bold italic code =
     h\<lparr>Runs := Runs h @
        [zero_Run\<lparr>Text := text', Run.Bold := bold, Run.Italic := italic, IsCode := code\<rparr>]\<rparr>"

definition Hyperlink_AddImageRun :: "Hyperlink \<Rightarrow> string \<Rightarrow> int \<Rightarrow> int \<Rightarrow> Hyperlink" where
  "Hyperlink_AddImageRun h relID width height =
     h\<lparr>Runs := Runs h @
        [zero_Run\<lparr>IsImage := True, ImageRelID := relID, ImageWidth := width,
                    ImageHeight := height\<rparr>]\<rparr>"

definition Paragraph_AddHyperlink :: "Paragraph \<Rightarrow> string \<Rightarrow> Paragraph" where
  "Paragraph_AddHyperlink p id' =
     p\<lparr>Children := Children p @ [HyperlinkChild \<lparr> ID = id', Runs = [] \<rparr>]\<rparr>"

subsection \<open>Rendering a run\<close>

text \<open>The run-properties block of \<^verbatim>\<open>Run.ToXML\<close>.\<close>

definition Run_rPr :: "Run \<Rightarrow> string" where
  \<open>Run_rPr r =
     (if Run.Bold r \<or> Run.Italic r \<or> Underline r \<or> Strike r \<or> FontName r \<noteq> []
         \<or> float_gt_zero (FontSize r) \<or> Run.Color r \<noteq> [] \<or> IsCode r
      then
       ''\<newline>                <w:rPr>'' @
       (if FontName r \<noteq> [] then
          ''\<newline>                    <w:rFonts w:ascii="'' @ FontName r @
          ''" w:eastAsia="'' @ FontName r @
          ''" w:hAnsi="'' @ FontName r @
          ''"/>''
        else []) @
       (if float_gt_zero (FontSize r) then
          (let sz = float_to_int (float_times_two (FontSize r)) in
          ''\<newline>                    <w:sz w:val="'' @ fmt_d sz @ ''"/>'' @
          ''\<newline>                    <w:szCs w:val="'' @ fmt_d sz @ ''"/>'')
        else []) @
       (if Run.Bold r then
          ''\<newline>                    <w:b/>''
        else []) @
       (if Run.Italic r then
          ''\<newline>                    <w:i/>''
        else []) @
       (if Underline r then
          ''\<newline>                    <w:u w:val="single"/>''
        else []) @
       (if Strike r then
          ''\<newline>                    <w:strike/>''
        else []) @
       (if Run.Color r \<noteq> [] then
          (let color = TrimPrefix (Run.Color r) ''#'' in
          ''\<newline>                    <w:color w:val="'' @ color @
          ''"/>'')
        else []) @
       (if IsCode r then
          ''\<newline>                    <w:rFonts w:ascii="Consolas" w:hAnsi="Consolas"/>'' @
          ''\<newline>                    <w:shd w:val="clear" w:color="auto" w:fill="E8E8E8"/>''
        else []) @
       ''\<newline>                </w:rPr>''
      else [])\<close>

text \<open>The embedded drawing of an image run.\<close>

definition Run_drawing :: "Run \<Rightarrow> string" where
  \<open>Run_drawing r =
       ''\<newline>                <w:drawing>'' @
       ''\<newline>                    <wp:inline distT="0" distB="0" distL="0" distR="0">'' @
       ''\<newline>                        <wp:extent cx="'' @ fmt_d (ImageWidth r) @ ''" cy="'' @ fmt_d (ImageHeight r) @ ''"/>'' @
       ''\<newline>                        <wp:effectExtent l="0" t="0" r="0" b="0"/>'' @
       ''\<newline>                        <wp:docPr id="1" name="Picture"/>'' @
       ''\<newline>                        <wp:cNvGraphicFramePr>'' @
       ''\<newline>                            <a:graphicFrameLocks xmlns:a="http://schemas.openxmlformats.org/drawingml/2006/main" noChangeAspect="1"/>'' @
       ''\<newline>                        </wp:cNvGraphicFramePr>'' @
       ''\<newline>                        <a:graphic xmlns:a="http://schemas.openxmlformats.org/drawingml/2006/main">'' @
       ''\<newline>                            <a:graphicData uri="http://schemas.openxmlformats.org/drawingml/2006/picture">'' @
       ''\<newline>                                <pic:pic xmlns:pic="http://schemas.openxmlformats.org/drawingml/2006/picture">'' @
       ''\<newline>                                    <pic:nvPicPr>'' @
       ''\<newline>                                        <pic:cNvPr id="0" name="Picture"/>'' @
       ''\<newline>                                        <pic:cNvPicPr/>'' @
       ''\<newline>                                    </pic:nvPicPr>'' @
       ''\<newline>                                    <pic:blipFill>'' @
       ''\<newline>                                        <a:blip r:embed="'' @ ImageRelID r @ ''"/>'' @
       ''\<newline>                                        <a:stretch>'' @
       ''\<newline>                                            <a:fillRect/>'' @
       ''\<newline>                                        </a:stretch>'' @
       ''\<newline>                                    </pic:blipFill>'' @
       ''\<newline>                                    <pic:spPr>'' @
       ''\<newline>                                        <a:xfrm>'' @
       ''\<newline>                                            <a:off x="0" y="0"/>'' @
       ''\<newline>                                            <a:ext cx="'' @ fmt_d (ImageWidth r) @ ''" cy="'' @ fmt_d (ImageHeight r) @ ''"/>'' @
       ''\<newline>                                        </a:xfrm>'' @
       ''\<newline>                                        <a:prstGeom prst="rect">'' @
       ''\<newline>                                            <a:avLst/>'' @
       ''\<newline>                                        </a:prstGeom>'' @
       ''\<newline>                                    </pic:spPr>'' @
       ''\<newline>                                </pic:pic>'' @
       ''\<newline>                            </a:graphicData>'' @
       ''\<newline>                        </a:graphic>'' @
       ''\<newline>                    </wp:inline>'' @
       ''\<newline>                </w:drawing>''\<close>

text \<open>
  One text element: the body of the loop over the lines after the line break. The
  preserve-whitespace marker is the attribute \<^verbatim>\<open>xml:space="preserve"\<close>.
\<close>

definition text_element :: "string \<Rightarrow> string" where
  \<open>text_element line =
     (if HasPrefix line '' '' \<or> HasSuffix line '' '' \<or> Contains line ''  ''
      then
       ''\<newline>                <w:t xml:space="preserve">'' @ line @ ''</w:t>''
      else
       ''\<newline>                <w:t>'' @ line @ ''</w:t>'')\<close>

text \<open>The loop \<^verbatim>\<open>for i, line := range lines\<close>, entered at index \<open>i\<close>.\<close>

fun text_lines :: "nat \<Rightarrow> string list \<Rightarrow> string" where
  \<open>text_lines i [] = []\<close>
| \<open>text_lines i (line # lines) =
     (if i > 0 then
       ''\<newline>                <w:br/>''
      else []) @ text_element line @ text_lines (i + 1) lines\<close>

text \<open>The content of a run: the drawing, or the text elements of a non-empty text.\<close>

definition Run_content :: "Run \<Rightarrow> string" where
  \<open>Run_content r =
     (if IsImage r then Run_drawing r
      else if Text r \<noteq> [] then
        (let escapedText = XMLEscape (Text r);
             lines = Split escapedText CHR ''\<newline>''
         in text_lines 0 lines)
      else [])\<close>

definition Run_ToXML :: "Run \<Rightarrow> string" where
  \<open>Run_ToXML r =
       ''\<newline>            <w:r>'' @ Run_rPr r @ Run_content r @
       ''\<newline>            </w:r>''\<close>

subsection \<open>Rendering a hyperlink and a paragraph\<close>

definition Hyperlink_ToXML :: "Hyperlink \<Rightarrow> string" where
  \<open>Hyperlink_ToXML h =
     ''<w:hyperlink r:id="'' @ ID h @ ''">'' @ concat (map Run_ToXML (Runs h)) @
     ''</w:hyperlink>''\<close>

fun ParagraphChild_ToXML :: "ParagraphChild \<Rightarrow> string" where
  "ParagraphChild_ToXML (RunChild r) = Run_ToXML r"
| "ParagraphChild_ToXML (HyperlinkChild h) = Hyperlink_ToXML h"

definition Paragraph_pPr :: "Paragraph \<Rightarrow> string" where
  \<open>Paragraph_pPr p =
     (if StyleID p \<noteq> [] \<or> Align p \<noteq> [] \<or> Indent p > 0 \<or> SpacingB p > 0 \<or> SpacingA p > 0
         \<or> Shading p \<noteq> [] \<or> Border p \<or> HorizontalRule p \<or> LineHeight p > 0
         \<or> FirstLineIndent p > 0
      then
       ''\<newline>            <w:pPr>'' @
       (if StyleID p \<noteq> [] then
          ''\<newline>                <w:pStyle w:val="'' @ StyleID p @
          ''"/>''
        else []) @
       (if Align p \<noteq> [] then
          (let jc = (if Align p = ''left'' then ''start''
                     else if Align p = ''right'' then ''end''
                     else Align p) in
          ''\<newline>                <w:jc w:val="'' @ jc @
          ''"/>'')
        else []) @
       (if Indent p > 0 \<or> FirstLineIndent p > 0 then
          ''\<newline>                <w:ind w:left="'' @ fmt_d (Indent p) @
          ''" w:firstLine="'' @ fmt_d (FirstLineIndent p) @ ''"/>''
        else []) @
       (if SpacingB p > 0 \<or> SpacingA p > 0 \<or> LineHeight p > 0 then
          (let line = (if LineHeight p > 0 then LineHeight p else 360) in
          ''\<newline>                <w:spacing w:before="'' @ fmt_d (SpacingA p) @
          ''" w:after="'' @ fmt_d (SpacingB p) @ ''" w:line="'' @ fmt_d line @
          ''" w:lineRule="auto"/>'')
        else []) @
       (if Shading p \<noteq> [] then
          (let shading = TrimPrefix (Shading p) ''#'' in
          ''\<newline>                <w:shd w:val="clear" w:color="auto" w:fill="'' @ shading @
          ''"/>'')
        else []) @
       (if HorizontalRule p then
          ''\<newline>                <w:pBdr>'' @
          ''\<newline>                    <w:bottom w:val="single" w:sz="6" w:space="1" w:color="A0A0A0"/>'' @
          ''\<newline>                </w:pBdr>''
        else []) @
       (if Border p then
          ''\<newline>                <w:pBdr>'' @
          ''\<newline>                    <w:top w:val="single" w:sz="4" w:space="1" w:color="C0C0C0"/>'' @
          ''\<newline>                    <w:left w:val="single" w:sz="4" w:space="4" w:color="C0C0C0"/>'' @
          ''\<newline>                    <w:bottom w:val="single" w:sz="4" w:space="1" w:color="C0C0C0"/>'' @
          ''\<newline>                    <w:right w:val="single" w:sz="4" w:space="4" w:color="C0C0C0"/>'' @
          ''\<newline>                </w:pBdr>''
        else []) @
       ''\<newline>            </w:pPr>''
      else [])\<close>

definition Paragraph_ToXML :: "Paragraph \<Rightarrow> string" where
  \<open>Paragraph_ToXML p =
       ''\<newline>        <w:p>'' @ Paragraph_pPr p @
       concat (map ParagraphChild_ToXML (Children p)) @
       ''\<newline>        </w:p>''\<close>

section \<open>Table model (package docx)\<close>

text \<open>
  Rows, cells and paragraphs are held by pointer in Go and every one is attached in one
  place, as the constructors and the converter do; the model holds them by value and
  passes the state: rendering a table writes to the \<^verbatim>\<open>Align\<close> field of the paragraphs
  of its cells, so every rendering function returns the markup together with the object
  as rendering leaves it.
\<close>

record TableCell =
  Paragraphs :: "Paragraph list"
  Width :: int
  Align :: string
  VAlign :: string
  Shading :: string

record TableRow =
  Cells :: "TableCell list"
  IsHeader :: bool

record Table =
  Rows :: "TableRow list"
  ColWidths :: "int list"
  HasBorders :: bool

definition NewTable :: Table where
  "NewTable = \<lparr> Rows = [], ColWidths = [], HasBorders = True \<rparr>"

definition NewTableRow :: "bool \<Rightarrow> TableRow" where
  "NewTableRow isHeader = \<lparr> Cells = [], IsHeader = isHeader \<rparr>"

definition NewTableCell :: TableCell where
  "NewTableCell = \<lparr> Paragraphs = [], Width = 0, Align = [], VAlign = [], Shading = [] \<rparr>"

definition Table_AddRow :: "Table \<Rightarrow> bool \<Rightarrow> Table" where
  "Table_AddRow t isHeader = t\<lparr>Rows := Rows t @ [NewTableRow isHeader]\<rparr>"

definition TableRow_AddCell :: "TableRow \<Rightarrow> TableRow" where
  "TableRow_AddCell r = r\<lparr>Cells := Cells r @ [NewTableCell]\<rparr>"

definition TableCell_AddParagraph :: "TableCell \<Rightarrow> Paragraph \<Rightarrow> TableCell" where
  "TableCell_AddParagraph c p = c\<lparr>Paragraphs := Paragraphs c @ [p]\<rparr>"

definition TableCell_SetText :: "TableCell \<Rightarrow> string \<Rightarrow> bool \<Rightarrow> TableCell" where
  "TableCell_SetText c text' bold =
     (let p = NewParagraph [];
          run = zero_Run\<lparr>Text := text', Run.Bold := bold\<rparr>
      in c\<lparr>Paragraphs := Paragraphs c @ [p\<lparr>Children := Children p @ [RunChild run]\<rparr>]\<rparr>)"

subsection \<open>Rendering\<close>

text \<open>
  The loop over the paragraphs of a cell whose alignment is \<open>cellAlign\<close>: the
  assignment \<^verbatim>\<open>p.Align = cell.Align\<close> is made on the paragraph itself, before it is
  rendered.
\<close>

fun cell_paragraphs_ToXML :: "string \<Rightarrow> Paragraph list \<Rightarrow> string \<times> Paragraph list" where
  "cell_paragraphs_ToXML cellAlign [] = ([], [])"
| "cell_paragraphs_ToXML cellAlign (p # ps) =
     (let p' = (if cellAlign \<noteq> [] \<and> Paragraph.Align p = []
                then p\<lparr>Paragraph.Align := cellAlign\<rparr> else p);
          (xml, ps') = cell_paragraphs_ToXML cellAlign ps
      in (Paragraph_ToXML p' @ xml, p' # ps'))"

text \<open>The cell-properties block, up to the end of \<^verbatim>\<open>w:tcPr\<close>.\<close>

definition TableCell_tcPr :: "TableCell \<Rightarrow> string" where
  \<open>TableCell_tcPr cell =
       ''\<newline>                <w:tc>'' @
       ''\<newline>                    <w:tcPr>'' @
       (if Width cell > 0 then
          ''\<newline>                        <w:tcW w:w="'' @ fmt_d (Width cell) @ ''" w:type="dxa"/>''
        else []) @
       (if TableCell.Shading cell \<noteq> [] then
          ''\<newline>                        <w:shd w:val="clear" w:color="auto" w:fill="'' @ TableCell.Shading cell @
          ''"/>''
        else []) @
       (if VAlign cell \<noteq> [] then
          ''\<newline>                        <w:vAlign w:val="'' @ VAlign cell @
          ''"/>''
        else []) @
       ''\<newline>                    </w:tcPr>''\<close>

text \<open>The body of the loop over the cells of a row.\<close>

definition TableCell_ToXML :: "TableCell \<Rightarrow> string \<times> TableCell" where
  \<open>TableCell_ToXML cell =
     (if length (Paragraphs cell) = 0 then
        (TableCell_tcPr cell @
         ''\<newline>                    <w:p/>'' @
         ''\<newline>                </w:tc>'', cell)
      else
        (let (xml, ps') = cell_paragraphs_ToXML (TableCell.Align cell) (Paragraphs cell)
         in (TableCell_tcPr cell @ xml @
             ''\<newline>                </w:tc>'', cell\<lparr>Paragraphs := ps'\<rparr>)))\<close>

fun cells_ToXML :: "TableCell list \<Rightarrow> string \<times> TableCell list" where
  "cells_ToXML [] = ([], [])"
| "cells_ToXML (cell # cells) =
     (let (x, cell') = TableCell_ToXML cell;
          (xs, cells') = cells_ToXML cells
      in (x @ xs, cell' # cells'))"

text \<open>The body of the loop over the rows of a table.\<close>

definition TableRow_ToXML :: "TableRow \<Rightarrow> string \<times> TableRow" where
  \<open>TableRow_ToXML row =
     (let (xml, cells') = cells_ToXML (Cells row)
      in (''\<newline>            <w:tr>'' @
          (if IsHeader row then
             ''\<newline>                <w:trPr>'' @
             ''\<newline>                    <w:tblHeader/>'' @
             ''\<newline>                </w:trPr>''
           else []) @
          xml @
          ''\<newline>            </w:tr>'', row\<lparr>Cells := cells'\<rparr>))\<close>

fun rows_ToXML :: "TableRow list \<Rightarrow> string \<times> TableRow list" where
  "rows_ToXML [] = ([], [])"
| "rows_ToXML (row # rows) =
     (let (x, row') = TableRow_ToXML row;
          (xs, rows') = rows_ToXML rows
      in (x @ xs, row' # rows'))"

text \<open>The table properties and the column grid, which come before the rows.\<close>

definition Table_tblPr :: "Table \<Rightarrow> string" where
  \<open>Table_tblPr t =
       ''\<newline>        <w:tbl>'' @
       ''\<newline>            <w:tblPr>'' @
       ''\<newline>                <w:tblStyle w:val="TableGrid"/>'' @
       ''\<newline>                <w:tblW w:w="0" w:type="auto"/>'' @
       ''\<newline>                <w:tblLook w:val="04A0" w:firstRow="1" w:lastRow="0" w:firstColumn="1" w:lastColumn="0" w:noHBand="0" w:noVBand="1"/>'' @
       (if HasBorders t then
          ''\<newline>                <w:tblBorders>'' @
          ''\<newline>                    <w:top w:val="single" w:sz="4" w:space="0" w:color="auto"/>'' @
          ''\<newline>                    <w:left w:val="single" w:sz="4" w:space="0" w:color="auto"/>'' @
          ''\<newline>                    <w:bottom w:val="single" w:sz="4" w:space="0" w:color="auto"/>'' @
          ''\<newline>                    <w:right w:val="single" w:sz="4" w:space="0" w:color="auto"/>'' @
          ''\<newline>                    <w:insideH w:val="single" w:sz="4" w:space="0" w:color="auto"/>'' @
          ''\<newline>                    <w:insideV w:val="single" w:sz="4" w:space="0" w:color="auto"/>'' @
          ''\<newline>                </w:tblBorders>''
        else []) @
       ''\<newline>            </w:tblPr>'' @
       (if length (ColWidths t) > 0 then
          ''\<newline>            <w:tblGrid>'' @
          concat (map (\<lambda>w.
          ''\<newline>                <w:gridCol w:w="'' @ fmt_d w @ ''"/>'') (ColWidths t)) @
          ''\<newline>            </w:tblGrid>''
        else [])\<close>

definition Table_ToXML :: "Table \<Rightarrow> string \<times> Table" where
  \<open>Table_ToXML t =
     (let (xml, rows') = rows_ToXML (Rows t)
      in (Table_tblPr t @ xml @
          ''\<newline>        </w:tbl>'', t\<lparr>Rows := rows'\<rparr>))\<close>

section \<open>Relationship registry and package builder (package docx)\<close>

text \<open>
  The elements the converter appends to a document: a paragraph, or a table wrapped in
  a \<^verbatim>\<open>TableElement\<close>.
\<close>

datatype Element = ParagraphElement Paragraph | TableElement Table

fun Element_ToXML :: "Element \<Rightarrow> string \<times> Element" where
  "Element_ToXML (ParagraphElement p) = (Paragraph_ToXML p, ParagraphElement p)"
| "Element_ToXML (TableElement t) = (let (xml, t') = Table_ToXML t in (xml, TableElement t'))"

record ImageData =
  Data :: string
  ContentType :: string
  Width :: int
  Height :: int

record Relationship =
  ID :: string
  Type :: string
  Target :: string
  TargetMode :: string

text \<open>
  A document as \<^verbatim>\<open>NewDocument\<close> creates it and the operations below change it: the
  configuration is there and the image map is allocated. The counter is a Go \<^verbatim>\<open>int\<close>;
  it is modelled by an unbounded integer, since each increment also appends one
  relationship to \<^verbatim>\<open>contentRels\<close>, so the counter never exceeds the length of a
  slice held in memory and stays far below the bound of the machine type.
\<close>

record Document =
  config :: Config
  elements :: "Element list"
  images :: "string \<rightharpoonup> ImageData"
  imageCount :: int
  rels :: "Relationship list"
  contentRels :: "Relationship list"

definition NewDocument :: "Config \<Rightarrow> Document" where
  "NewDocument cfg = \<lparr> config = cfg, elements = [], images = Map.empty, imageCount = 0,
      rels = [], contentRels = [] \<rparr>"

definition AddParagraph :: "Document \<Rightarrow> Element \<Rightarrow> Document" where
  "AddParagraph d p = d\<lparr>elements := elements d @ [p]\<rparr>"

text \<open>The extension chosen by the \<^verbatim>\<open>switch\<close> on the content type.\<close>

definition image_ext :: "string \<Rightarrow> string" where
  "image_ext contentType =
     (if contentType = ''image/jpeg'' then ''.jpg''
      else if contentType = ''image/gif'' then ''.gif''
      else if contentType = ''image/svg+xml'' then ''.svg''
      else ''.png'')"

definition AddImage :: "Document \<Rightarrow> string \<Rightarrow> string \<Rightarrow> int \<Rightarrow> int \<Rightarrow> string \<times> Document" where
  "AddImage d data contentType width height =
     (let d1 = d\<lparr>imageCount := imageCount d + 1\<rparr>;
          rID = ''rId'' @ fmt_d (imageCount d1 + 10);
          imgName = ''image'' @ fmt_d (imageCount d1);
          ext = image_ext contentType;
          d2 = d1\<lparr>images := (images d1)(imgName @ ext \<mapsto>
                  \<lparr> Data = data, ContentType = contentType,
                    Width = width, Height = height \<rparr>)\<rparr>;
          d3 = d2\<lparr>contentRels := contentRels d2 @
                  [\<lparr> ID = rID,
                     Type = ''http://schemas.openxmlformats.org/officeDocument/2006/relationships/image'',
                     Target = ''media/'' @ imgName @ ext,
                     TargetMode = [] \<rparr>]\<rparr>
      in (rID, d3))"

definition AddHyperlink :: "Document \<Rightarrow> string \<Rightarrow> string \<times> Document" where
  "AddHyperlink d target =
     (let d1 = d\<lparr>imageCount := imageCount d + 1\<rparr>;
          rID = ''rId'' @ fmt_d (imageCount d1 + 1000);
          d2 = d1\<lparr>contentRels := contentRels d1 @
                  [\<lparr> ID = rID,
                     Type = ''http://schemas.openxmlformats.org/officeDocument/2006/relationships/hyperlink'',
                     Target = target,
                     TargetMode = ''External'' \<rparr>]\<rparr>
      in (rID, d2))"

subsection \<open>Saving\<close>

text \<open>
  The file system and the archive writer are the environment of \<^verbatim>\<open>Save\<close>: whether
  the directory of a path can be made, whether the file can be created, and whether an
  entry of a given name can be created and written. The archive is the list of the
  entries written so far, each a name and its bytes. An error ends \<^verbatim>\<open>Save\<close> at once.
\<close>

datatype error = MkdirError | CreateError | ZipError string

record Env =
  MkdirAll_ok :: "string \<Rightarrow> bool"
  Create_ok :: "string \<Rightarrow> bool"
  entry_ok :: "string \<Rightarrow> bool"

type_synonym archive = "(string \<times> string) list"

text \<open>\<^verbatim>\<open>if err := step; err != nil { return err }\<close>: go on with the result of a step, or return its error.\<close>

definition or_return :: "error + 'a \<Rightarrow> ('a \<Rightarrow> error + 'b) \<Rightarrow> error + 'b" where
  "or_return step rest = (case step of Inl e \<Rightarrow> Inl e | Inr x \<Rightarrow> rest x)"

definition zip_write :: "Env \<Rightarrow> archive \<Rightarrow> string \<Rightarrow> string \<Rightarrow> error + archive" where
  "zip_write env w name content =
     (if entry_ok env name then Inr (w @ [(name, content)]) else Inl (ZipError name))"

definition ContentTypes_xml :: string where
  \<open>ContentTypes_xml =
       ''<?xml version="1.0" encoding="UTF-8" standalone="yes"?>'' @
       ''\<newline><Types xmlns="http://schemas.openxmlformats.org/package/2006/content-types">'' @
       ''\<newline>    <Default Extension="rels" ContentType="application/vnd.openxmlformats-package.relationships+xml"/>'' @
       ''\<newline>    <Default Extension="xml" ContentType="application/xml"/>'' @
       ''\<newline>    <Default Extension="png" ContentType="image/png"/>'' @
       ''\<newline>    <Default Extension="jpg" ContentType="image/jpeg"/>'' @
       ''\<newline>    <Default Extension="jpeg" ContentType="image/jpeg"/>'' @
       ''\<newline>    <Default Extension="gif" ContentType="image/gif"/>'' @
       ''\<newline>    <Override PartName="/word/document.xml" ContentType="application/vnd.openxmlformats-officedocument.wordprocessingml.document.main+xml"/>'' @
       ''\<newline>    <Override PartName="/word/styles.xml" ContentType="application/vnd.openxmlformats-officedocument.wordprocessingml.styles+xml"/>'' @
       ''\<newline></Types>''\<close>

definition writeContentTypes :: "Env \<Rightarrow> archive \<Rightarrow> error + archive" where
  \<open>writeContentTypes env w = zip_write env w ''[Content_Types].xml'' ContentTypes_xml\<close>

definition Rels_xml :: string where
  \<open>Rels_xml =
       ''<?xml version="1.0" encoding="UTF-8" standalone="yes"?>'' @
       ''\<newline><Relationships xmlns="http://schemas.openxmlformats.org/package/2006/relationships">'' @
       ''\<newline>    <Relationship Id="rId1" Type="http://schemas.openxmlformats.org/officeDocument/2006/relationships/officeDocument" Target="word/document.xml"/>'' @
       ''\<newline></Relationships>''\<close>

definition writeRels :: "Env \<Rightarrow> archive \<Rightarrow> error + archive" where
  \<open>writeRels env w = zip_write env w ''_rels/.rels'' Rels_xml\<close>

text \<open>One line of the body-relationship part: the body of the loop over \<^verbatim>\<open>contentRels\<close>.\<close>

definition Relationship_xml :: "Relationship \<Rightarrow> string" where
  \<open>Relationship_xml rel =
     (if TargetMode rel \<noteq> [] then
       ''\<newline>    <Relationship Id="'' @ Relationship.ID rel @ ''" Type="'' @ Type rel @
       ''" Target="'' @ Target rel @ ''" TargetMode="'' @ TargetMode rel @ ''"/>''
      else
       ''\<newline>    <Relationship Id="'' @ Relationship.ID rel @ ''" Type="'' @ Type rel @
       ''" Target="'' @ Target rel @ ''"/>'')\<close>

definition DocumentRels_xml :: "Document \<Rightarrow> string" where
  \<open>DocumentRels_xml d =
       ''<?xml version="1.0" encoding="UTF-8" standalone="yes"?>'' @
       ''\<newline><Relationships xmlns="http://schemas.openxmlformats.org/package/2006/relationships">'' @
       ''\<newline>    <Relationship Id="rId1" Type="http://schemas.openxmlformats.org/officeDocument/2006/relationships/styles" Target="styles.xml"/>'' @
       concat (map Relationship_xml (contentRels d)) @
       ''\<newline></Relationships>''\<close>

definition writeDocumentRels :: "Env \<Rightarrow> Document \<Rightarrow> archive \<Rightarrow> error + archive" where
  \<open>writeDocumentRels env d w =
     zip_write env w ''word/_rels/document.xml.rels'' (DocumentRels_xml d)\<close>

definition writeStyles :: "Env \<Rightarrow> Document \<Rightarrow> archive \<Rightarrow> error + archive" where
  \<open>writeStyles env d w = zip_write env w ''word/styles.xml'' (GenerateStyles (config d))\<close>

text \<open>
  The loop of \<^verbatim>\<open>writeDocument\<close> over the elements, in the order of the slice: the
  markup of all of them, and the elements as rendering leaves them.
\<close>

fun elements_ToXML :: "Element list \<Rightarrow> string \<times> Element list" where
  "elements_ToXML [] = ([], [])"
| "elements_ToXML (elem # elems) =
     (let (x, elem') = Element_ToXML elem;
          (xs, elems') = elements_ToXML elems
      in (x @ xs, elem' # elems'))"

definition Document_header :: string where
  \<open>Document_header =
       ''<?xml version="1.0" encoding="UTF-8" standalone="yes"?>'' @
       ''\<newline><w:document xmlns:w="http://schemas.openxmlformats.org/wordprocessingml/2006/main"'' @
       ''\<newline>            xmlns:wp="http://schemas.openxmlformats.org/drawingml/2006/wordprocessingDrawing"'' @
       ''\<newline>            xmlns:a="http://schemas.openxmlformats.org/drawingml/2006/main"'' @
       ''\<newline>            xmlns:pic="http://schemas.openxmlformats.org/drawingml/2006/picture"'' @
       ''\<newline>            xmlns:r="http://schemas.openxmlformats.org/officeDocument/2006/relationships">'' @
       ''\<newline>    <w:body>''\<close>

definition Document_trailer :: string where
  \<open>Document_trailer =
       ''\<newline>        <w:sectPr>'' @
       ''\<newline>            <w:pgSz w:w="11906" w:h="16838"/>'' @
       ''\<newline>            <w:pgMar w:top="1440" w:right="1800" w:bottom="1440" w:left="1800" w:header="851" w:footer="992" w:gutter="0"/>'' @
       ''\<newline>        </w:sectPr>'' @
       ''\<newline>    </w:body>'' @
       ''\<newline></w:document>''\<close>

definition writeDocument :: "Env \<Rightarrow> Document \<Rightarrow> archive \<Rightarrow> error + (archive \<times> Document)" where
  \<open>writeDocument env d w =
     (let (xml, elems') = elements_ToXML (elements d) in
      or_return (zip_write env w ''word/document.xml'' (Document_header @ xml @ Document_trailer))
        (\<lambda>w'. Inr (w', d\<lparr>elements := elems'\<rparr>)))\<close>

definition writeImage :: "Env \<Rightarrow> archive \<Rightarrow> string \<Rightarrow> ImageData \<Rightarrow> error + archive" where
  \<open>writeImage env w name img = zip_write env w (''word/media/'' @ name) (Data img)\<close>

text \<open>
  The loop \<^verbatim>\<open>for name, img := range d.images\<close>. Go leaves the order in which a map is
  ranged over open; \<open>names\<close> is the order the run-time takes, every key of the map once.
\<close>

fun writeImages :: "Env \<Rightarrow> (string \<rightharpoonup> ImageData) \<Rightarrow> string list \<Rightarrow> archive \<Rightarrow> error + archive" where
  "writeImages env imgs [] w = Inr w"
| "writeImages env imgs (name # names) w =
     (case imgs name of
        None \<Rightarrow> writeImages env imgs names w
      | Some img \<Rightarrow>
          or_return (writeImage env w name img) (\<lambda>w'. writeImages env imgs names w'))"

definition Save :: "Env \<Rightarrow> string list \<Rightarrow> Document \<Rightarrow> string \<Rightarrow> error + (archive \<times> Document)" where
  "Save env names d path =
     (if \<not> MkdirAll_ok env path then Inl MkdirError
      else if \<not> Create_ok env path then Inl CreateError
      else
        or_return (writeContentTypes env []) (\<lambda>w1.
        or_return (writeRels env w1) (\<lambda>w2.
        or_return (writeDocumentRels env d w2) (\<lambda>w3.
        or_return (writeStyles env d w3) (\<lambda>w4.
        or_return (writeDocument env d w4) (\<lambda>(w5, d').
        or_return (writeImages env (images d') names w5) (\<lambda>w6.
        Inr (w6, d'))))))))"

section \<open>The converter's treatment of a link (package converter)\<close>

text \<open>
  The loop that closes the \<^verbatim>\<open>*ast.Link\<close> case of \<^verbatim>\<open>processInlineNode\<close>: every run of
  the link gets the link colour unless it has a colour, and is underlined.
\<close>

fun link_style_runs :: "Run list \<Rightarrow> Run list" where
  "link_style_runs [] = []"
| "link_style_runs (run # runs) =
     (let run1 = (if Run.Color run = [] then run\<lparr>Run.Color := ''0563C1''\<rparr> else run);
          run2 = run1\<lparr>Underline := True\<rparr>
      in run2 # link_style_runs runs)"

text \<open>
  The \<^verbatim>\<open>*ast.Link\<close> case for a paragraph as the container. The walk over the children
  of the link node, which fills the hyperlink through its run-container operations and
  may register images with the document, is the parameter \<open>walk\<close>: it depends on the
  Markdown tree and on the formula renderer.
\<close>

definition processLink ::
  "(Document \<times> Hyperlink \<Rightarrow> Document \<times> Hyperlink) \<Rightarrow> string \<Rightarrow> Document \<Rightarrow> Paragraph
     \<Rightarrow> Document \<times> Paragraph" where
  "processLink walk url d para =
     (let (rID, d1) = AddHyperlink d url;
          link = \<lparr> Hyperlink.ID = rID, Runs = [] \<rparr>;
          (d2, link') = walk (d1, link);
          link'' = link'\<lparr>Runs := link_style_runs (Runs link')\<rparr>
      in (d2, para\<lparr>Children := Children para @ [HyperlinkChild link'']\<rparr>))"

section \<open>Definitions for the claims\<close>

text \<open>The zero values of the configuration structs, for the concrete inputs below.\<close>

definition zero_StyleConfig :: StyleConfig where
  "zero_StyleConfig = \<lparr> StyleConfig.Font = [], Size = Finite 0, Bold = False, Italic = False,
      Color = [], Background = [], LineSpacing = 0, LineHeight = 0, SpaceBefore = 0,
      SpaceAfter = 0, FirstLineIndent = 0 \<rparr>"

definition zero_Config :: Config where
  "zero_Config = \<lparr> Styles = \<lparr> Body = zero_StyleConfig, Heading1 = zero_StyleConfig,
        Heading2 = zero_StyleConfig, Heading3 = zero_StyleConfig, Heading4 = zero_StyleConfig,
        Heading5 = zero_StyleConfig, Heading6 = zero_StyleConfig, Heading7 = zero_StyleConfig,
        Heading8 = zero_StyleConfig, Heading9 = zero_StyleConfig, Code = zero_StyleConfig,
        CodeBlock = zero_StyleConfig \<rparr>,
      Table = \<lparr> TableConfig.Font = [], Size = Finite 0, Borders = False, HeaderBold = False \<rparr>,
      Mermaid = \<lparr> MermaidConfig.Enabled = False, CLI = [], Theme = [] \<rparr>,
      Math = \<lparr> MathConfig.Enabled = False, Render = [] \<rparr>,
      Images = \<lparr> MaxWidth = 0, DownloadTimeout = 0 \<rparr> \<rparr>"

subsection \<open>Sequences of registrations\<close>

text \<open>
  A caller registers images and hyperlinks one after the other on one document;
  \<open>register_all\<close> makes the calls in order and collects the relationship IDs returned.
\<close>

datatype RegOp = RegImage string string int int | RegLink string

fun register :: "Document \<Rightarrow> RegOp \<Rightarrow> string \<times> Document" where
  "register d (RegImage data contentType width height) = AddImage d data contentType width height"
| "register d (RegLink target) = AddHyperlink d target"

fun register_all :: "Document \<Rightarrow> RegOp list \<Rightarrow> string list \<times> Document" where
  "register_all d [] = ([], d)"
| "register_all d (op # ops) =
     (let (rID, d') = register d op;
          (rIDs, d'') = register_all d' ops
      in (rID # rIDs, d''))"

text \<open>The constant each operation adds to the counter to form its ID.\<close>

fun id_offset :: "RegOp \<Rightarrow> int" where
  "id_offset (RegImage data contentType width height) = 10"
| "id_offset (RegLink target) = 1000"

text \<open>Reading a decimal digit back, to show that \<open>fmt_d\<close> tells integers apart.\<close>

definition digit_val :: "char \<Rightarrow> nat" where
  "digit_val c = of_char c - 48"

subsection \<open>Cell alignment\<close>

text \<open>
  What the loop over the paragraphs of a cell does to one paragraph: the alignment of the
  cell is written into a paragraph that has none.
\<close>

definition default_align :: "string \<Rightarrow> Paragraph \<Rightarrow> Paragraph" where
  "default_align cellAlign p =
     (if cellAlign \<noteq> [] \<and> Paragraph.Align p = [] then p\<lparr>Paragraph.Align := cellAlign\<rparr> else p)"

text \<open>The alignment fields of all paragraphs of a table, row by row and cell by cell.\<close>

definition paragraph_aligns :: "Table \<Rightarrow> string list list list" where
  "paragraph_aligns t =
     map (\<lambda>row. map (\<lambda>cell. map Paragraph.Align (Paragraphs cell)) (Cells row)) (Rows t)"

text \<open>
  A centred cell to which a paragraph without alignment is attached, and the table of
  this one cell.
\<close>

definition C3_cell :: TableCell where
  "C3_cell = TableCell_AddParagraph (NewTableCell\<lparr>TableCell.Align := ''center''\<rparr>) (NewParagraph [])"

definition C3_table :: Table where
  "C3_table = NewTable\<lparr>Rows := [\<lparr> Cells = [C3_cell], IsHeader = False \<rparr>]\<rparr>"

text \<open>A table of one cell without paragraphs.\<close>

definition C8_table :: Table where
  "C8_table = NewTable\<lparr>Rows := [\<lparr> Cells = [NewTableCell], IsHeader = False \<rparr>]\<rparr>"

subsection \<open>The keys of the image map\<close>

text \<open>
  Which registrations are images, and the invariant of the image map under the
  registrations: every key is \<^verbatim>\<open>image\<close>, the number of an earlier call, and an
  extension of four bytes.
\<close>

fun is_image :: "RegOp \<Rightarrow> bool" where
  "is_image (RegImage data contentType width height) = True"
| "is_image (RegLink target) = False"

definition image_keys_ok :: "Document \<Rightarrow> bool" where
  "image_keys_ok d =
     (finite (dom (images d))
      \<and> (\<forall>name \<in> dom (images d). \<exists>k ext. k \<le> imageCount d \<and> length ext = 4
            \<and> name = ''image'' @ fmt_d k @ ext))"

subsection \<open>The escaped text, chunk by chunk\<close>

text \<open>
  One turn of the loop of \<^verbatim>\<open>escapeText\<close>: what it writes for the rune at the head of
  the bytes, and the bytes it goes on with.
\<close>

definition first_chunk :: "string \<Rightarrow> string" where
  "first_chunk s =
     (let (r, width) = DecodeRune s in
      case escape_of r width of Some esc \<Rightarrow> esc | None \<Rightarrow> take width s)"

definition rest_after :: "string \<Rightarrow> string" where
  "rest_after s = drop (snd (DecodeRune s)) s"

text \<open>
  Text is well escaped when it holds no \<^verbatim>\<open><\<close> and no \<^verbatim>\<open>>\<close>, and every \<^verbatim>\<open>&\<close> in it
  starts one of the character references that \<^verbatim>\<open>escapeText\<close> writes: such text cannot
  open or close a tag.
\<close>

definition entity_names :: "string list" where
  "entity_names = [''#34;'', ''#39;'', ''amp;'', ''lt;'', ''gt;'', ''#x9;'', ''#xA;'', ''#xD;'']"

fun well_escaped :: "string \<Rightarrow> bool" where
  "well_escaped [] = True"
| "well_escaped (c # cs) =
     ((if c = CHR ''&'' then list_ex (HasPrefix cs) entity_names
       else c \<noteq> CHR ''<'' \<and> c \<noteq> CHR ''>'') \<and> well_escaped cs)"

subsection \<open>Concrete inputs\<close>

text \<open>A walk over the children of a link that adds one plain run.\<close>

definition C7_walk :: "Document \<times> Hyperlink \<Rightarrow> Document \<times> Hyperlink" where
  "C7_walk = (\<lambda>(d, link). (d, Hyperlink_AddRun link ''here''))"

text \<open>
  An environment in which nothing fails, and a document with a paragraph, then a table,
  for which an image was registered, then a hyperlink.
\<close>

definition env_ok :: Env where
  "env_ok = \<lparr> MkdirAll_ok = (\<lambda>path. True), Create_ok = (\<lambda>path. True), entry_ok = (\<lambda>name. True) \<rparr>"

definition C4_doc :: Document where
  "C4_doc =
     AddParagraph
       (snd (AddHyperlink
          (snd (AddImage
             (AddParagraph (NewDocument zero_Config)
                (ParagraphElement (Paragraph_AddRun (NewParagraph []) ''hello'')))
             ''GIF89a'' ''image/gif'' 1 1))
          ''https://example.com/''))
       (TableElement C8_table)"

text \<open>
  The reading of claim C2 in the spec's words: the font and the size of a heading level
  are those of its own entry when they are set, and those of the body style otherwise.
  \<open>fallback_GenerateStyles\<close> is the style part with the heading styles of that reading.
  \<open>C2_cfg\<close> sets the body style and leaves every heading entry empty.
\<close>

definition fallback_heading_style :: "Config \<Rightarrow> int \<Rightarrow> StyleConfig" where
  "fallback_heading_style cfg level =
     (let h = GetHeadingStyle cfg level; b = Body (Styles cfg)
      in h\<lparr>StyleConfig.Font := (if StyleConfig.Font h = [] then StyleConfig.Font b else StyleConfig.Font h),
           StyleConfig.Size := (if StyleConfig.Size h = Finite 0 then StyleConfig.Size b else StyleConfig.Size h)\<rparr>)"

definition fallback_GenerateStyles :: "Config \<Rightarrow> string" where
  \<open>fallback_GenerateStyles cfg =
     styles_docDefaults cfg @ styles_Normal cfg
       @ concat (map (\<lambda>level. heading_style_xml level (fallback_heading_style cfg level))
                   [1, 2, 3, 4, 5, 6, 7, 8, 9])
       @ styles_Code cfg @ styles_TableGrid @ ''\<newline></w:styles>''\<close>

definition C2_cfg :: Config where
  "C2_cfg = zero_Config\<lparr>Styles := (Styles zero_Config)\<lparr>Body :=
              zero_StyleConfig\<lparr>StyleConfig.Font := ''SimSun'', StyleConfig.Size := Finite 12\<rparr>\<rparr>\<rparr>"

section \<open>Lemmas\<close>

subsection \<open>Each rendering loop as a map\<close>

lemma cell_paragraphs_ToXML_eq:
  "cell_paragraphs_ToXML a ps =
     (concat (map (\<lambda>p. Paragraph_ToXML (if a \<noteq> [] \<and> Paragraph.Align p = [] then p\<lparr>Paragraph.Align := a\<rparr> else p)) ps),
      map (\<lambda>p. if a \<noteq> [] \<and> Paragraph.Align p = [] then p\<lparr>Paragraph.Align := a\<rparr> else p) ps)"
  by (induction ps) (simp_all add: Let_def)

lemma cells_ToXML_eq:
  "cells_ToXML cells = (concat (map (\<lambda>c. fst (TableCell_ToXML c)) cells), map (\<lambda>c. snd (TableCell_ToXML c)) cells)"
  by (induction cells) (simp_all add: Let_def split: prod.splits)

lemma rows_ToXML_eq:
  "rows_ToXML rows = (concat (map (\<lambda>r. fst (TableRow_ToXML r)) rows), map (\<lambda>r. snd (TableRow_ToXML r)) rows)"
  by (induction rows) (simp_all add: Let_def split: prod.splits)

lemma elements_ToXML_eq:
  "elements_ToXML es = (concat (map (\<lambda>e. fst (Element_ToXML e)) es), map (\<lambda>e. snd (Element_ToXML e)) es)"
  by (induction es) (simp_all add: Let_def split: prod.splits)

lemma TableCell_ToXML_empty:
  "Paragraphs cell = [] \<Longrightarrow> TableCell_ToXML cell = (TableCell_tcPr cell @ ''\<newline>                    <w:p/>'' @ ''\<newline>                </w:tc>'', cell)"
  by (simp add: TableCell_ToXML_def)

lemma TableCell_ToXML_eq:
  "TableCell_ToXML cell =
     (TableCell_tcPr cell @
      (if Paragraphs cell = [] then ''\<newline>                    <w:p/>''
       else concat (map (\<lambda>p. Paragraph_ToXML (default_align (TableCell.Align cell) p)) (Paragraphs cell))) @
      ''\<newline>                </w:tc>'',
      cell\<lparr>Paragraphs := map (default_align (TableCell.Align cell)) (Paragraphs cell)\<rparr>)"
  by (simp add: TableCell_ToXML_def cell_paragraphs_ToXML_eq default_align_def cong: if_cong)

lemma TableRow_ToXML_eq:
  \<open>TableRow_ToXML row =
     (''\<newline>            <w:tr>'' @
      (if IsHeader row then
         ''\<newline>                <w:trPr>'' @
         ''\<newline>                    <w:tblHeader/>'' @
         ''\<newline>                </w:trPr>''
       else []) @
      concat (map (\<lambda>c. fst (TableCell_ToXML c)) (Cells row)) @
      ''\<newline>            </w:tr>'',
      row\<lparr>Cells := map (\<lambda>c. snd (TableCell_ToXML c)) (Cells row)\<rparr>)\<close>
  by (simp add: TableRow_ToXML_def cells_ToXML_eq)

lemma Table_ToXML_eq:
  \<open>Table_ToXML t =
     (Table_tblPr t @ concat (map (\<lambda>r. fst (TableRow_ToXML r)) (Rows t)) @
      ''\<newline>        </w:tbl>'',
      t\<lparr>Rows := map (\<lambda>r. snd (TableRow_ToXML r)) (Rows t)\<rparr>)\<close>
  by (simp add: Table_ToXML_def rows_ToXML_eq)

lemma default_align_eq:
  "default_align a p = p\<lparr>Paragraph.Align := (if Paragraph.Align p = [] then a else Paragraph.Align p)\<rparr>"
  by (simp add: default_align_def)

lemma link_style_runs_eq:
  "link_style_runs runs =
     map (\<lambda>run. run\<lparr>Run.Color := (if Run.Color run = [] then ''0563C1'' else Run.Color run),
                      Underline := True\<rparr>) runs"
  by (induction runs) (simp_all add: Let_def)

lemma heading_styles_from_1:
  "heading_styles_from cfg 1 =
     heading_style_xml 1 (Heading1 (Styles cfg)) @ heading_style_xml 2 (Heading2 (Styles cfg))
     @ heading_style_xml 3 (Heading3 (Styles cfg)) @ heading_style_xml 4 (Heading4 (Styles cfg))
     @ heading_style_xml 5 (Heading5 (Styles cfg)) @ heading_style_xml 6 (Heading6 (Styles cfg))
     @ heading_style_xml 7 (Heading7 (Styles cfg)) @ heading_style_xml 8 (Heading8 (Styles cfg))
     @ heading_style_xml 9 (Heading9 (Styles cfg))"
  by (simp add: heading_styles_from.simps GetHeadingStyle_def)

subsection \<open>A size in half-points\<close>

text \<open>
  When the double of a size, rounded towards zero, fits the machine integer, the doubling
  did not overflow and the conversion gives that integer.
\<close>

lemma MaxFloat64_ge: "2 ^ 63 + 1 \<le> MaxFloat64"
  by (simp add: MaxFloat64_def)

lemma round_to_zero_bounds:
  assumes "is_int64 (round_to_zero y)"
  shows "y < 2 ^ 63" and "- (2 ^ 63) - 1 < y"
proof -
  show "y < 2 ^ 63"
  proof (cases "0 \<le> y")
    case True
    with assms have "\<lfloor>y\<rfloor> < 2 ^ 63" by (simp add: is_int64_def round_to_zero_def)
    then show ?thesis by (simp add: floor_less_iff)
  next
    case False
    then have "y < 0" by simp
    also have "(0::rat) < 2 ^ 63" by simp
    finally show ?thesis .
  qed
  show "- (2 ^ 63) - 1 < y"
  proof (cases "0 \<le> y")
    case True
    have "- (2 ^ 63) - 1 < (0::rat)" by simp
    also note True
    finally show ?thesis .
  next
    case False
    with assms have "- (2 ^ 63) \<le> \<lceil>y\<rceil>" by (simp add: is_int64_def round_to_zero_def)
    then show ?thesis by (simp add: le_ceiling_iff)
  qed
qed

lemma float_times_two_in_range:
  assumes "is_int64 (round_to_zero (x * 2))"
  shows "float_times_two (Finite x) = Finite (x * 2)"
proof -
  from round_to_zero_bounds [OF assms] MaxFloat64_ge
  have "\<not> MaxFloat64 < x * 2" and "\<not> x * 2 < - MaxFloat64" by linarith+
  then show ?thesis by simp
qed

lemma float_to_int_double:
  assumes "is_int64 (round_to_zero (x * 2))"
  shows "float_to_int (float_times_two (Finite x)) = round_to_zero (x * 2)"
  using assms by (simp add: float_times_two_in_range del: float_times_two.simps)

subsection \<open>Decimal formatting is injective\<close>

lemma digit_val_digit_char: "d < 10 \<Longrightarrow> digit_val (digit_char d) = d"
proof -
  assume "d < 10"
  then have "d \<in> {0,1,2,3,4,5,6,7,8,9}" by auto
  then show ?thesis by (auto simp: digit_val_def digit_char_def)
qed

lemma foldl_digits: "foldl (\<lambda>acc c. 10 * acc + digit_val c) 0 (digits n) = n"
proof (induction n rule: digits.induct)
  case (1 n)
  show ?case
  proof (cases "n < 10")
    case True
    then show ?thesis by (subst digits.simps) (simp add: digit_val_digit_char)
  next
    case False
    with 1 have "foldl (\<lambda>acc c. 10 * acc + digit_val c) 0 (digits (n div 10)) = n div 10" by simp
    with False show ?thesis by (subst digits.simps) (simp add: digit_val_digit_char)
  qed
qed

lemma digits_inj: "digits m = digits n \<Longrightarrow> m = n"
  by (metis foldl_digits)

lemma digits_nonempty: "digits n \<noteq> []"
  by (subst digits.simps) simp

lemma digit_char_not_minus: "d < 10 \<Longrightarrow> digit_char d \<noteq> CHR ''-''"
proof -
  assume "d < 10"
  then have "d \<in> {0,1,2,3,4,5,6,7,8,9}" by auto
  then show ?thesis by (auto simp: digit_char_def)
qed

lemma hd_digits_not_minus: "hd (digits n) \<noteq> CHR ''-''"
proof (induction n rule: digits.induct)
  case (1 n)
  show ?case
  proof (cases "n < 10")
    case True
    then show ?thesis by (subst digits.simps) (simp add: digit_char_not_minus)
  next
    case False
    with 1 have "hd (digits (n div 10)) \<noteq> CHR ''-''" by simp
    with False show ?thesis by (subst digits.simps) (simp add: digits_nonempty)
  qed
qed

lemma fmt_d_inj: "fmt_d i = fmt_d j \<Longrightarrow> i = j"
proof -
  assume eq: "fmt_d i = fmt_d j"
  have neg: "\<And>a b. a < 0 \<Longrightarrow> \<not> b < 0 \<Longrightarrow> fmt_d a \<noteq> fmt_d b"
  proof
    fix a b :: int
    assume "a < 0" "\<not> b < 0" "fmt_d a = fmt_d b"
    then have "CHR ''-'' # digits (nat (- a)) = digits (nat b)" by (simp add: fmt_d_def)
    then have "hd (digits (nat b)) = CHR ''-''" by (metis list.sel(1))
    then show False using hd_digits_not_minus by blast
  qed
  show "i = j"
  proof (cases "i < 0")
    case True
    show ?thesis
    proof (cases "j < 0")
      case True
      with \<open>i < 0\<close> eq have "digits (nat (- i)) = digits (nat (- j))" by (simp add: fmt_d_def)
      then have "nat (- i) = nat (- j)" by (rule digits_inj)
      with True \<open>i < 0\<close> show ?thesis by simp
    next
      case False
      with neg [OF \<open>i < 0\<close>] eq show ?thesis by blast
    qed
  next
    case False
    show ?thesis
    proof (cases "j < 0")
      case True
      with neg [OF True False] eq show ?thesis by simp
    next
      case jf: False
      with False eq have "digits (nat i) = digits (nat j)" by (simp add: fmt_d_def)
      then have "nat i = nat j" by (rule digits_inj)
      with False jf show ?thesis by simp
    qed
  qed
qed

text \<open>The equations that evaluate a formatted number, for the concrete inputs.\<close>

lemmas eval_fmt = fmt_d_def digits.simps digit_char_def

subsection \<open>Registrations\<close>

lemma register_fst: "fst (register d op) = ''rId'' @ fmt_d (imageCount d + 1 + id_offset op)"
  by (cases op) (simp_all add: AddImage_def AddHyperlink_def Let_def)

lemma register_imageCount: "imageCount (snd (register d op)) = imageCount d + 1"
  by (cases op) (simp_all add: AddImage_def AddHyperlink_def Let_def)

lemma register_all_Cons:
  "register_all d (op # ops) =
     (fst (register d op) # fst (register_all (snd (register d op)) ops),
      snd (register_all (snd (register d op)) ops))"
  by (simp add: Let_def split_beta)

lemma register_all_length: "length (fst (register_all d ops)) = length ops"
  by (induction ops arbitrary: d) (simp_all add: register_all_Cons del: register_all.simps(2))

lemma register_all_nth:
  "k < length ops \<Longrightarrow>
   fst (register_all d ops) ! k = ''rId'' @ fmt_d (imageCount d + int k + 1 + id_offset (ops ! k))"
proof (induction ops arbitrary: d k)
  case Nil
  then show ?case by simp
next
  case (Cons op ops)
  show ?case
  proof (cases k)
    case 0
    then show ?thesis
      by (simp add: register_all_Cons register_fst del: register_all.simps(2))
  next
    case (Suc j)
    with Cons.prems have j: "j < length ops" by simp
    from Cons.IH [OF j, of "snd (register d op)"] Suc show ?thesis
      by (simp add: register_all_Cons register_imageCount add.commute add.left_commute
            del: register_all.simps(2))
  qed
qed

text \<open>
  IDs of the two kinds are not kept apart: a hyperlink registered first and an image
  registered by call 991 both get \<^verbatim>\<open>rId1001\<close>.
\<close>

lemma registration_ids_can_coincide:
  "fst (register_all (NewDocument cfg)
         (RegLink t # replicate 989 (RegLink t) @ [RegImage data ct w h])) ! 0
   = fst (register_all (NewDocument cfg)
         (RegLink t # replicate 989 (RegLink t) @ [RegImage data ct w h])) ! 990"
proof -
  let ?ops = "RegLink t # replicate 989 (RegLink t) @ [RegImage data ct w h]"
  have a: "fst (register_all (NewDocument cfg) ?ops) ! 0 = ''rId'' @ fmt_d 1001"
    using register_all_nth [of 0 ?ops "NewDocument cfg"] by (simp add: NewDocument_def)
  have "?ops ! 990 = RegImage data ct w h"
    by (simp add: nth_append nth_Cons')
  then have b: "fst (register_all (NewDocument cfg) ?ops) ! 990 = ''rId'' @ fmt_d 1001"
    using register_all_nth [of 990 ?ops "NewDocument cfg"] by (simp add: NewDocument_def)
  from a b show ?thesis by simp
qed

text \<open>
  The IDs that the registrations return are the IDs of the relationships stored, in the
  same order.
\<close>

lemma register_contentRels_ids:
  "map Relationship.ID (contentRels (snd (register d op)))
     = map Relationship.ID (contentRels d) @ [fst (register d op)]"
  by (cases op) (simp_all add: AddImage_def AddHyperlink_def Let_def)

lemma register_all_contentRels_ids:
  "map Relationship.ID (contentRels (snd (register_all d ops)))
     = map Relationship.ID (contentRels d) @ fst (register_all d ops)"
proof (induction ops arbitrary: d)
  case Nil
  show ?case by simp
next
  case (Cons op ops)
  from Cons.IH [of "snd (register d op)"] show ?case
    by (simp add: register_all_Cons register_contentRels_ids del: register_all.simps(2))
qed

lemma registered_ids_listed:
  "map Relationship.ID (contentRels (snd (register_all (NewDocument cfg) ops)))
     = fst (register_all (NewDocument cfg) ops)"
  using register_all_contentRels_ids [of "NewDocument cfg" ops] by (simp add: NewDocument_def)

subsection \<open>Every image call stores under a new key\<close>

lemma image_ext_length: "length (image_ext contentType) = 4"
  by (simp add: image_ext_def)

lemma image_key_inj:
  assumes "length e1 = 4" and "length e2 = 4"
    and "''image'' @ fmt_d j @ e1 = ''image'' @ fmt_d k @ e2"
  shows "j = k"
proof -
  from assms(3) have eq: "fmt_d j @ e1 = fmt_d k @ e2" by simp
  then have "length (fmt_d j @ e1) = length (fmt_d k @ e2)" by simp
  with assms(1,2) have "length (fmt_d j) = length (fmt_d k)" by simp
  with eq have "fmt_d j = fmt_d k" by simp
  then show ?thesis by (rule fmt_d_inj)
qed

lemma AddImage_images:
  "images (snd (AddImage d data ct w h)) =
     (images d)(''image'' @ fmt_d (imageCount d + 1) @ image_ext ct \<mapsto>
        \<lparr> Data = data, ContentType = ct, Width = w, Height = h \<rparr>)"
  "imageCount (snd (AddImage d data ct w h)) = imageCount d + 1"
  by (simp_all add: AddImage_def Let_def)

lemma AddHyperlink_images:
  "images (snd (AddHyperlink d t)) = images d"
  "imageCount (snd (AddHyperlink d t)) = imageCount d + 1"
  by (simp_all add: AddHyperlink_def Let_def)

lemma AddImage_new_key:
  assumes "image_keys_ok d"
  shows "''image'' @ fmt_d (imageCount d + 1) @ image_ext ct \<notin> dom (images d)"
proof
  assume "''image'' @ fmt_d (imageCount d + 1) @ image_ext ct \<in> dom (images d)"
  with assms obtain k ext where k: "k \<le> imageCount d" "length ext = 4"
    and eq: "''image'' @ fmt_d (imageCount d + 1) @ image_ext ct = ''image'' @ fmt_d k @ ext"
    unfolding image_keys_ok_def by blast
  from image_key_inj [OF image_ext_length k(2) eq] k(1) show False by simp
qed

lemma register_keys:
  assumes "image_keys_ok d"
  shows "image_keys_ok (snd (register d op))
     \<and> card (dom (images (snd (register d op))))
         = card (dom (images d)) + (if is_image op then 1 else 0)"
proof (cases op)
  case (RegImage data ct w h)
  let ?key = "''image'' @ fmt_d (imageCount d + 1) @ image_ext ct"
  from assms have fin: "finite (dom (images d))" by (simp add: image_keys_ok_def)
  have new: "?key \<notin> dom (images d)" by (rule AddImage_new_key [OF assms])
  have dom: "dom (images (snd (AddImage d data ct w h))) = insert ?key (dom (images d))"
    by (simp add: AddImage_images)
  have ok: "image_keys_ok (snd (AddImage d data ct w h))"
    unfolding image_keys_ok_def
  proof (intro conjI ballI)
    show "finite (dom (images (snd (AddImage d data ct w h))))" using fin dom by simp
  next
    fix name assume "name \<in> dom (images (snd (AddImage d data ct w h)))"
    with dom have "name = ?key \<or> name \<in> dom (images d)" by auto
    then show "\<exists>k ext. k \<le> imageCount (snd (AddImage d data ct w h)) \<and> length ext = 4
            \<and> name = ''image'' @ fmt_d k @ ext"
    proof
      assume "name = ?key"
      then show ?thesis using image_ext_length [of ct]
        by (intro exI [of _ "imageCount d + 1"] exI [of _ "image_ext ct"])
           (simp add: AddImage_images)
    next
      assume "name \<in> dom (images d)"
      with assms obtain k ext where "k \<le> imageCount d" "length ext = 4"
        "name = ''image'' @ fmt_d k @ ext" unfolding image_keys_ok_def by blast
      then show ?thesis
        by (intro exI [of _ k] exI [of _ ext]) (simp add: AddImage_images)
    qed
  qed
  from fin new dom have "card (dom (images (snd (AddImage d data ct w h)))) = card (dom (images d)) + 1"
    by simp
  with ok RegImage show ?thesis by simp
next
  case (RegLink t)
  from assms have "image_keys_ok (snd (AddHyperlink d t))"
    unfolding image_keys_ok_def AddHyperlink_images
    by (metis add_increasing2 zero_less_one_class.zero_le_one)
  with RegLink show ?thesis by (simp add: AddHyperlink_images)
qed

lemma register_all_keys:
  "image_keys_ok d \<Longrightarrow>
   image_keys_ok (snd (register_all d ops))
   \<and> card (dom (images (snd (register_all d ops))))
       = card (dom (images d)) + length (filter is_image ops)"
proof (induction ops arbitrary: d)
  case Nil
  then show ?case by simp
next
  case (Cons op ops)
  from register_keys [OF Cons.prems, of op]
  have ok: "image_keys_ok (snd (register d op))"
    and c: "card (dom (images (snd (register d op))))
         = card (dom (images d)) + (if is_image op then 1 else 0)" by simp_all
  from Cons.IH [OF ok] c show ?case
    by (simp add: register_all_Cons del: register_all.simps(2))
qed

lemma NewDocument_keys_ok: "image_keys_ok (NewDocument cfg)"
  by (simp add: image_keys_ok_def NewDocument_def)

lemma registered_images_card:
  "card (dom (images (snd (register_all (NewDocument cfg) ops)))) = length (filter is_image ops)"
  using register_all_keys [OF NewDocument_keys_ok, of cfg ops] by (simp add: NewDocument_def)

subsection \<open>Writing the media entries\<close>

lemma writeImages_ok:
  "\<forall>name \<in> set names. entry_ok env (''word/media/'' @ name) \<Longrightarrow> set names \<subseteq> dom imgs \<Longrightarrow>
   writeImages env imgs names w =
     Inr (w @ map (\<lambda>name. (''word/media/'' @ name, Data (the (imgs name)))) names)"
proof (induction names arbitrary: w)
  case Nil
  then show ?case by simp
next
  case (Cons name names)
  from Cons.prems obtain img where img: "imgs name = Some img" by auto
  from Cons.prems have ok: "entry_ok env (''word/media/'' @ name)" by simp
  from Cons.prems have rest: "\<forall>name \<in> set names. entry_ok env (''word/media/'' @ name)"
    "set names \<subseteq> dom imgs" by simp_all
  show ?case
    using img ok Cons.IH [OF rest]
    by (simp add: or_return_def writeImage_def zip_write_def)
qed

subsection \<open>Decoding a rune\<close>

lemma accept_lo_ge: "0x80 \<le> accept_lo p0"
  by (simp add: accept_lo_def)

lemma DecodeRune_ascii: "(of_char c :: nat) < 0x80 \<Longrightarrow> DecodeRune (c # p) = (of_char c, 1)"
  by simp

lemma DecodeRune_width:
  "1 \<le> snd (DecodeRune (c # p)) \<and> snd (DecodeRune (c # p)) \<le> Suc (length p)"
  by (auto simp: Let_def rune_size_def Suc_le_eq)

lemma DecodeRune_high:
  assumes "\<not> (of_char c :: nat) < 0x80"
  shows "\<forall>x \<in> set (take (snd (DecodeRune (c # p))) (c # p)). (0x80::nat) \<le> of_char x"
proof (cases p)
  case Nil
  with assms show ?thesis by (auto simp: Let_def rune_size_def)
next
  case p1: (Cons b1 p')
  show ?thesis
  proof (cases p')
    case Nil
    with p1 assms accept_lo_ge [of "of_char c"] show ?thesis
      by (auto simp: Let_def rune_size_def split: if_splits)
  next
    case p2: (Cons b2 p'')
    show ?thesis
    proof (cases p'')
      case Nil
      with p1 p2 assms accept_lo_ge [of "of_char c"] show ?thesis
        by (auto simp: Let_def rune_size_def split: if_splits)
    next
      case (Cons b3 p''')
      with p1 p2 assms accept_lo_ge [of "of_char c"] show ?thesis
        by (auto simp: Let_def rune_size_def split: if_splits)
    qed
  qed
qed

lemma DecodeRune_append_ascii:
  assumes "(of_char x :: nat) < 0x80"
  shows "DecodeRune (c # p @ x # q) = DecodeRune (c # p)"
proof (cases p)
  case Nil
  with assms accept_lo_ge [of "of_char c"] show ?thesis
    by (auto simp: Let_def rune_size_def)
next
  case p1: (Cons b1 p')
  show ?thesis
  proof (cases p')
    case Nil
    with p1 assms show ?thesis by (auto simp: Let_def rune_size_def)
  next
    case p2: (Cons b2 p'')
    show ?thesis
    proof (cases p'')
      case Nil
      with p1 p2 assms show ?thesis by (auto simp: Let_def rune_size_def)
    next
      case (Cons b3 p''')
      with p1 p2 assms show ?thesis by (auto simp: Let_def rune_size_def)
    qed
  qed
qed

subsection \<open>The first chunk of the escaped text\<close>

lemma escapeText_Cons:
  "escapeText (c # cs) = first_chunk (c # cs) @ escapeText (rest_after (c # cs))"
proof -
  obtain r w where d: "DecodeRune (c # cs) = (r, w)" by (cases "DecodeRune (c # cs)")
  with DecodeRune_width [of c cs] have "1 \<le> w" by simp
  then have "drop (w - 1) cs = drop w (c # cs)" by (cases w) simp_all
  with d show ?thesis
    by (simp add: first_chunk_def rest_after_def del: DecodeRune.simps)
qed

lemma rest_after_shorter: "length (rest_after (c # cs)) < length (c # cs)"
  using DecodeRune_width [of c cs] by (simp add: rest_after_def del: DecodeRune.simps)

lemma chunk_rest: "take (snd (DecodeRune s)) s @ rest_after s = s"
  by (simp add: rest_after_def)

lemma escape_of_Some:
  "escape_of r w = Some e \<Longrightarrow>
   e \<in> {''&#34;'', ''&#39;'', ''&amp;'', ''&lt;'', ''&gt;'', ''&#x9;'', ''&#xA;'', ''&#xD;'',
        [CHR 0xEF, CHR 0xBF, CHR 0xBD]}"
  by (auto simp: escape_of_def split: if_splits)

lemma escape_of_None:
  "escape_of r w = None \<Longrightarrow> r \<notin> {0x22, 0x27, 0x26, 0x3C, 0x3E, 0x09, 0x0A, 0x0D}"
  by (auto simp: escape_of_def split: if_splits)

text \<open>The three shapes of the first chunk: a replacement, one ASCII byte copied, or the bytes of a longer rune copied.\<close>

lemma first_chunk_cases:
  obtains (escaped) "first_chunk (c # cs) \<in>
        {''&#34;'', ''&#39;'', ''&amp;'', ''&lt;'', ''&gt;'', ''&#x9;'', ''&#xA;'', ''&#xD;'',
         [CHR 0xEF, CHR 0xBF, CHR 0xBD]}"
  | (ascii) "first_chunk (c # cs) = [c]" "take (snd (DecodeRune (c # cs))) (c # cs) = [c]"
      "(of_char c :: nat) \<notin> {0x22, 0x27, 0x26, 0x3C, 0x3E, 0x09, 0x0A, 0x0D}"
  | (high) "first_chunk (c # cs) = take (snd (DecodeRune (c # cs))) (c # cs)"
      "\<forall>x \<in> set (take (snd (DecodeRune (c # cs))) (c # cs)). (0x80::nat) \<le> of_char x"
proof -
  obtain r w where d: "DecodeRune (c # cs) = (r, w)" by (cases "DecodeRune (c # cs)")
  show thesis
  proof (cases "escape_of r w")
    case (Some e)
    with d have "first_chunk (c # cs) = e" by (simp add: first_chunk_def del: DecodeRune.simps)
    with escape_of_Some [OF Some] escaped show thesis by simp
  next
    case None
    with d have fc: "first_chunk (c # cs) = take w (c # cs)"
      by (simp add: first_chunk_def del: DecodeRune.simps)
    show thesis
    proof (cases "(of_char c :: nat) < 0x80")
      case True
      with d have "r = of_char c" "w = 1" by simp_all
      with fc d escape_of_None [OF None] ascii show thesis by (simp del: DecodeRune.simps)
    next
      case False
      from DecodeRune_high [OF False, of cs] fc d high show thesis
        by (simp del: DecodeRune.simps)
    qed
  qed
qed

lemma first_chunk_nonempty: "first_chunk (c # cs) \<noteq> []"
proof (cases c cs rule: first_chunk_cases)
  case escaped
  then show ?thesis by auto
next
  case ascii
  then show ?thesis by simp
next
  case high
  with DecodeRune_width [of c cs] show ?thesis
    by (cases "snd (DecodeRune (c # cs))") (simp_all del: DecodeRune.simps)
qed

lemma high_not_ascii: "\<forall>x \<in> set s. (0x80::nat) \<le> of_char x \<Longrightarrow> (of_char a :: nat) < 0x80 \<Longrightarrow> a \<notin> set s"
  by auto

lemma first_chunk_no_newline: "CHR ''\<newline>'' \<notin> set (first_chunk (c # cs))"
proof (cases c cs rule: first_chunk_cases)
  case escaped
  then show ?thesis by auto
next
  case ascii
  then show ?thesis by auto
next
  case high
  then show ?thesis using high_not_ascii [of _ "CHR ''\<newline>''"] by simp
qed

lemma first_chunk_space:
  "first_chunk (CHR '' '' # cs) = '' ''" "rest_after (CHR '' '' # cs) = cs"
  by (simp_all add: first_chunk_def rest_after_def escape_of_def isInCharacterRange_def)

lemma first_chunk_no_space:
  assumes "c \<noteq> CHR '' ''"
  shows "CHR '' '' \<notin> set (first_chunk (c # cs))"
    and "CHR '' '' \<notin> set (take (snd (DecodeRune (c # cs))) (c # cs))"
proof -
  have "CHR '' '' \<notin> set (first_chunk (c # cs))
        \<and> CHR '' '' \<notin> set (take (snd (DecodeRune (c # cs))) (c # cs))"
  proof (cases c cs rule: first_chunk_cases)
    case escaped
    have "CHR '' '' \<notin> set (take (snd (DecodeRune (c # cs))) (c # cs))"
    proof (cases "(of_char c :: nat) < 0x80")
      case True
      with assms show ?thesis by simp
    next
      case False
      from DecodeRune_high [OF False, of cs] show ?thesis
        using high_not_ascii [of _ "CHR '' ''"] by simp
    qed
    with escaped show ?thesis by auto
  next
    case ascii
    with assms show ?thesis by simp
  next
    case high
    then show ?thesis using high_not_ascii [of _ "CHR '' ''"] by simp
  qed
  then show "CHR '' '' \<notin> set (first_chunk (c # cs))"
    and "CHR '' '' \<notin> set (take (snd (DecodeRune (c # cs))) (c # cs))" by simp_all
qed

subsection \<open>What escaping keeps\<close>

lemma escapeText_no_newline: "CHR ''\<newline>'' \<notin> set (escapeText s)"
proof (induction "length s" arbitrary: s rule: less_induct)
  case less
  show ?case
  proof (cases s)
    case Nil
    then show ?thesis by simp
  next
    case (Cons c cs)
    with less rest_after_shorter [of c cs]
    have "CHR ''\<newline>'' \<notin> set (escapeText (rest_after (c # cs)))" by simp
    with Cons first_chunk_no_newline [of c cs] show ?thesis
      by (simp add: escapeText_Cons del: escapeText.simps)
  qed
qed

lemma escapeText_nonempty: "s \<noteq> [] \<Longrightarrow> escapeText s \<noteq> []"
  by (cases s) (simp_all add: escapeText_Cons first_chunk_nonempty del: escapeText.simps)

lemma Split_no_sep: "sep \<notin> set s \<Longrightarrow> Split s sep = [s]"
  by (induction s) auto

lemma HasPrefix_space: "HasPrefix s '' '' = (s \<noteq> [] \<and> hd s = CHR '' '')"
  by (cases s) (auto simp: HasPrefix_def)

lemma HasSuffix_space: "HasSuffix s '' '' = (s \<noteq> [] \<and> last s = CHR '' '')"
proof (cases "s = []")
  case True
  then show ?thesis by (simp add: HasSuffix_def)
next
  case False
  then have "drop (length s - 1) s = [last s]"
    by (metis append_butlast_last_id append_eq_conv_conj length_butlast)
  with False show ?thesis by (auto simp: HasSuffix_def Suc_le_eq)
qed

lemma Contains_spaces_Cons:
  "Contains (c # cs) ''  '' = ((c = CHR '' '' \<and> HasPrefix cs '' '') \<or> Contains cs ''  '')"
  by (cases cs) (auto simp: HasPrefix_def)

lemma Contains_spaces_append:
  "CHR '' '' \<notin> set e \<Longrightarrow> Contains (e @ t) ''  '' = Contains t ''  ''"
  by (induction e) (auto simp add: Contains_spaces_Cons simp del: Contains.simps)

lemma escapeText_HasPrefix_space: "HasPrefix (escapeText s) '' '' = HasPrefix s '' ''"
proof (cases s)
  case Nil
  then show ?thesis by simp
next
  case (Cons c cs)
  show ?thesis
  proof (cases "c = CHR '' ''")
    case True
    with Cons show ?thesis
      by (simp add: escapeText_Cons first_chunk_space HasPrefix_space del: escapeText.simps)
  next
    case False
    from first_chunk_no_space(1) [OF False, of cs] first_chunk_nonempty [of c cs]
    have "hd (first_chunk (c # cs)) \<noteq> CHR '' ''" by (cases "first_chunk (c # cs)") auto
    with Cons False first_chunk_nonempty [of c cs] show ?thesis
      by (simp add: escapeText_Cons HasPrefix_space del: escapeText.simps)
  qed
qed

lemma escapeText_Contains_spaces: "Contains (escapeText s) ''  '' = Contains s ''  ''"
proof (induction "length s" arbitrary: s rule: less_induct)
  case less
  show ?case
  proof (cases s)
    case Nil
    then show ?thesis by simp
  next
    case (Cons c cs)
    have IH: "Contains (escapeText (rest_after (c # cs))) ''  '' = Contains (rest_after (c # cs)) ''  ''"
      using less Cons rest_after_shorter [of c cs] by simp
    show ?thesis
    proof (cases "c = CHR '' ''")
      case True
      with Cons IH show ?thesis
        by (simp add: escapeText_Cons first_chunk_space Contains_spaces_Cons
              escapeText_HasPrefix_space del: escapeText.simps Contains.simps)
    next
      case False
      have "Contains (c # cs) ''  ''
            = Contains (take (snd (DecodeRune (c # cs))) (c # cs) @ rest_after (c # cs)) ''  ''"
        by (simp only: chunk_rest)
      also have "\<dots> = Contains (rest_after (c # cs)) ''  ''"
        by (rule Contains_spaces_append) (rule first_chunk_no_space(2) [OF False])
      finally have orig: "Contains (c # cs) ''  '' = Contains (rest_after (c # cs)) ''  ''" .
      have "Contains (escapeText (c # cs)) ''  '' = Contains (escapeText (rest_after (c # cs))) ''  ''"
        by (simp only: escapeText_Cons)
           (rule Contains_spaces_append, rule first_chunk_no_space(1) [OF False])
      with orig IH Cons show ?thesis by simp
    qed
  qed
qed

lemma escapeText_HasSuffix_space: "HasSuffix (escapeText s) '' '' = HasSuffix s '' ''"
proof (induction "length s" arbitrary: s rule: less_induct)
  case less
  show ?case
  proof (cases s)
    case Nil
    then show ?thesis by simp
  next
    case (Cons c cs)
    let ?rest = "rest_after (c # cs)"
    let ?orig = "take (snd (DecodeRune (c # cs))) (c # cs)"
    have split: "?orig @ ?rest = c # cs" by (rule chunk_rest)
    have esc: "escapeText (c # cs) = first_chunk (c # cs) @ escapeText ?rest"
      by (rule escapeText_Cons)
    show ?thesis
    proof (cases "?rest = []")
      case rest_empty: True
      then have whole: "?orig = c # cs" using split by simp
      show ?thesis
      proof (cases "c = CHR '' ''")
        case True
        with rest_empty have "cs = []" by (simp add: first_chunk_space)
        with True Cons show ?thesis
          by (simp add: escapeText_Cons first_chunk_space HasSuffix_space del: escapeText.simps(2))
      next
        case False
        from first_chunk_no_space [OF False, of cs] whole
        have a: "CHR '' '' \<notin> set (first_chunk (c # cs))" and b: "CHR '' '' \<notin> set (c # cs)"
          by simp_all
        from a first_chunk_nonempty [of c cs] have "last (first_chunk (c # cs)) \<noteq> CHR '' ''"
          by (metis last_in_set)
        moreover from b have "last (c # cs) \<noteq> CHR '' ''" by (metis last_in_set list.distinct(1))
        ultimately show ?thesis using Cons rest_empty first_chunk_nonempty [of c cs]
          by (simp add: esc HasSuffix_space del: escapeText.simps(2))
      qed
    next
      case rest_nonempty: False
      have IH: "HasSuffix (escapeText ?rest) '' '' = HasSuffix ?rest '' ''"
        using less Cons rest_after_shorter [of c cs] by simp
      from rest_nonempty have "last (c # cs) = last ?rest"
        by (metis split last_appendR)
      moreover from rest_nonempty escapeText_nonempty
      have "last (escapeText (c # cs)) = last (escapeText ?rest)"
        by (simp add: esc del: escapeText.simps)
      ultimately show ?thesis using IH Cons rest_nonempty escapeText_nonempty [OF rest_nonempty]
        by (simp add: HasSuffix_space esc del: escapeText.simps)
    qed
  qed
qed

lemma escapeText_append_ascii:
  assumes "(of_char x :: nat) < 0x80"
  shows "escapeText (a @ x # q) = escapeText a @ escapeText (x # q)"
proof (induction "length a" arbitrary: a rule: less_induct)
  case less
  show ?case
  proof (cases a)
    case Nil
    then show ?thesis by simp
  next
    case (Cons c p)
    have d: "DecodeRune (c # p @ x # q) = DecodeRune (c # p)"
      by (rule DecodeRune_append_ascii [OF assms])
    have w: "snd (DecodeRune (c # p)) \<le> length (c # p)"
      using DecodeRune_width [of c p] by simp
    from w have tk: "take (snd (DecodeRune (c # p))) (c # p @ x # q)
                       = take (snd (DecodeRune (c # p))) (c # p)"
      using take_append [of "snd (DecodeRune (c # p))" "c # p" "x # q"]
      by (simp del: DecodeRune.simps)
    from w have dr: "drop (snd (DecodeRune (c # p))) (c # p @ x # q)
                       = drop (snd (DecodeRune (c # p))) (c # p) @ x # q"
      using drop_append [of "snd (DecodeRune (c # p))" "c # p" "x # q"]
      by (simp del: DecodeRune.simps)
    from d tk have fc: "first_chunk (c # p @ x # q) = first_chunk (c # p)"
      by (simp add: first_chunk_def split_beta del: DecodeRune.simps split: option.split)
    from d dr have ra: "rest_after (c # p @ x # q) = rest_after (c # p) @ x # q"
      by (simp add: rest_after_def del: DecodeRune.simps)
    have "escapeText (rest_after (c # p) @ x # q)
            = escapeText (rest_after (c # p)) @ escapeText (x # q)"
      using less Cons rest_after_shorter [of c p] by simp
    with fc ra Cons show ?thesis
      using escapeText_Cons [of c "p @ x # q"] escapeText_Cons [of c p] by simp
  qed
qed

lemma XMLEscape_markup:
  "XMLEscape (a @ CHR ''&'' # b) = XMLEscape a @ ''&amp;'' @ XMLEscape b"
  "XMLEscape (a @ CHR ''<'' # b) = XMLEscape a @ ''&lt;'' @ XMLEscape b"
  "XMLEscape (a @ CHR ''>'' # b) = XMLEscape a @ ''&gt;'' @ XMLEscape b"
  by (simp_all add: XMLEscape_def escapeText_append_ascii escape_of_def)

subsection \<open>Escaped text is well escaped\<close>

lemma HasPrefix_append: "HasPrefix cs e \<Longrightarrow> HasPrefix (cs @ b) e"
  by (auto simp: HasPrefix_def)

lemma list_ex_HasPrefix_append:
  "list_ex (HasPrefix cs) es \<Longrightarrow> list_ex (HasPrefix (cs @ b)) es"
  unfolding list_ex_iff using HasPrefix_append by blast

lemma well_escaped_append: "well_escaped a \<Longrightarrow> well_escaped b \<Longrightarrow> well_escaped (a @ b)"
  by (induction a) (simp_all add: list_ex_HasPrefix_append)

lemma well_escaped_high: "\<forall>x \<in> set s. (0x80::nat) \<le> of_char x \<Longrightarrow> well_escaped s"
  by (induction s) auto

lemma well_escaped_first_chunk: "well_escaped (first_chunk (c # cs))"
proof (cases c cs rule: first_chunk_cases)
  case escaped
  then show ?thesis by (auto simp: entity_names_def HasPrefix_def)
next
  case ascii
  then show ?thesis by auto
next
  case high
  then show ?thesis by (simp add: well_escaped_high del: DecodeRune.simps)
qed

lemma well_escaped_escapeText: "well_escaped (escapeText s)"
proof (induction "length s" arbitrary: s rule: less_induct)
  case less
  show ?case
  proof (cases s)
    case Nil
    then show ?thesis by simp
  next
    case (Cons c cs)
    with less rest_after_shorter [of c cs]
    have "well_escaped (escapeText (rest_after (c # cs)))" by simp
    with Cons well_escaped_first_chunk [of c cs] show ?thesis
      by (simp add: escapeText_Cons well_escaped_append del: escapeText.simps)
  qed
qed

subsection \<open>The text of a run\<close>

lemma Split_XMLEscape: "Split (XMLEscape t) CHR ''\<newline>'' = [XMLEscape t]"
  by (simp add: XMLEscape_def Split_no_sep escapeText_no_newline)

lemma Run_content_text:
  "\<not> IsImage r \<Longrightarrow> Text r \<noteq> [] \<Longrightarrow> Run_content r = text_element (XMLEscape (Text r))"
  by (simp add: Run_content_def Split_XMLEscape)

lemma text_element_XMLEscape:
  \<open>text_element (XMLEscape t) =
     (if HasPrefix t '' '' \<or> HasSuffix t '' '' \<or> Contains t ''  ''
      then ''\<newline>                <w:t xml:space="preserve">''
      else ''\<newline>                <w:t>'') @ XMLEscape t @ ''</w:t>''\<close>
  by (simp add: text_element_def XMLEscape_def escapeText_HasPrefix_space
        escapeText_HasSuffix_space escapeText_Contains_spaces del: Contains.simps)

text \<open>The equations that evaluate escaping and the string tests, for the concrete inputs.\<close>

lemmas eval_escape = XMLEscape_def escape_of_def isInCharacterRange_def

lemmas eval_strings = HasPrefix_def HasSuffix_def

section \<open>The claims\<close>

subsection \<open>C1: relationship IDs\<close>

text \<open>
  Claim C1, as the code has it. \<^verbatim>\<open>AddImage\<close> and \<^verbatim>\<open>AddHyperlink\<close> increment one
  counter, \<^verbatim>\<open>imageCount\<close>. On a new document, the call number \<open>k + 1\<close> of a sequence of
  registrations of either kind returns \<^verbatim>\<open>rId\<close> followed by \<open>k + 1 + 10\<close> when it is
  \<^verbatim>\<open>AddImage\<close> and by \<open>k + 1 + 1000\<close> when it is \<^verbatim>\<open>AddHyperlink\<close>, and two calls of
  the same kind never return the same ID. So images alone get \<^verbatim>\<open>rId11\<close>, \<^verbatim>\<open>rId12\<close>,
  ... and hyperlinks alone \<^verbatim>\<open>rId1001\<close>, \<^verbatim>\<open>rId1002\<close>, ..., and every call of either
  kind moves both sequences on by one.
\<close>

theorem C1_shared_counter:
  "length (fst (register_all (NewDocument cfg) ops)) = length ops
   \<and> (\<forall>k < length ops. fst (register_all (NewDocument cfg) ops) ! k
          = ''rId'' @ fmt_d (int k + 1 + id_offset (ops ! k)))
   \<and> (\<forall>j k. j < k \<and> k < length ops \<and> id_offset (ops ! j) = id_offset (ops ! k)
          \<longrightarrow> fst (register_all (NewDocument cfg) ops) ! j
                \<noteq> fst (register_all (NewDocument cfg) ops) ! k)
   \<and> ((\<forall>op \<in> set ops. is_image op) \<longrightarrow>
          fst (register_all (NewDocument cfg) ops)
            = map (\<lambda>k. ''rId'' @ fmt_d (int k + 11)) [0..<length ops])
   \<and> ((\<forall>op \<in> set ops. \<not> is_image op) \<longrightarrow>
          fst (register_all (NewDocument cfg) ops)
            = map (\<lambda>k. ''rId'' @ fmt_d (int k + 1001)) [0..<length ops])"
proof -
  have nth: "\<And>k. k < length ops \<Longrightarrow> fst (register_all (NewDocument cfg) ops) ! k
          = ''rId'' @ fmt_d (int k + 1 + id_offset (ops ! k))"
    using register_all_nth [of _ ops "NewDocument cfg"] by (simp add: NewDocument_def)
  have "fst (register_all (NewDocument cfg) ops) ! j \<noteq> fst (register_all (NewDocument cfg) ops) ! k"
    if "j < k" "k < length ops" "id_offset (ops ! j) = id_offset (ops ! k)" for j k
  proof
    assume eq: "fst (register_all (NewDocument cfg) ops) ! j = fst (register_all (NewDocument cfg) ops) ! k"
    from that have "j < length ops" by simp
    with eq nth [of j] nth [of k] that
    have "fmt_d (int j + 1 + id_offset (ops ! k)) = fmt_d (int k + 1 + id_offset (ops ! k))"
      by simp
    then have "int j + 1 + id_offset (ops ! k) = int k + 1 + id_offset (ops ! k)"
      by (rule fmt_d_inj)
    with that show False by simp
  qed
  then have distinct_ids: "\<forall>j k. j < k \<and> k < length ops \<and> id_offset (ops ! j) = id_offset (ops ! k)
          \<longrightarrow> fst (register_all (NewDocument cfg) ops) ! j
                \<noteq> fst (register_all (NewDocument cfg) ops) ! k" by blast
  have images_only: "fst (register_all (NewDocument cfg) ops)
            = map (\<lambda>k. ''rId'' @ fmt_d (int k + 11)) [0..<length ops]"
    if "\<forall>op \<in> set ops. is_image op"
  proof (rule nth_equalityI)
    show "length (fst (register_all (NewDocument cfg) ops))
            = length (map (\<lambda>k. ''rId'' @ fmt_d (int k + 11)) [0..<length ops])"
      by (simp add: register_all_length)
  next
    fix k assume "k < length (fst (register_all (NewDocument cfg) ops))"
    then have k: "k < length ops" by (simp add: register_all_length)
    with that have "is_image (ops ! k)" by simp
    then have "id_offset (ops ! k) = 10" by (cases "ops ! k") simp_all
    with nth [OF k] k
    show "fst (register_all (NewDocument cfg) ops) ! k
            = map (\<lambda>k. ''rId'' @ fmt_d (int k + 11)) [0..<length ops] ! k"
      by (simp add: add.commute add.left_commute)
  qed
  have links_only: "fst (register_all (NewDocument cfg) ops)
            = map (\<lambda>k. ''rId'' @ fmt_d (int k + 1001)) [0..<length ops]"
    if "\<forall>op \<in> set ops. \<not> is_image op"
  proof (rule nth_equalityI)
    show "length (fst (register_all (NewDocument cfg) ops))
            = length (map (\<lambda>k. ''rId'' @ fmt_d (int k + 1001)) [0..<length ops])"
      by (simp add: register_all_length)
  next
    fix k assume "k < length (fst (register_all (NewDocument cfg) ops))"
    then have k: "k < length ops" by (simp add: register_all_length)
    with that have "\<not> is_image (ops ! k)" by simp
    then have "id_offset (ops ! k) = 1000" by (cases "ops ! k") simp_all
    with nth [OF k] k
    show "fst (register_all (NewDocument cfg) ops) ! k
            = map (\<lambda>k. ''rId'' @ fmt_d (int k + 1001)) [0..<length ops] ! k"
      by (simp add: add.commute add.left_commute)
  qed
  from nth distinct_ids images_only links_only show ?thesis
    by (simp add: register_all_length)
qed

text \<open>
  The claim as stated fails: after one image the first hyperlink is \<^verbatim>\<open>rId1002\<close>, and
  after one hyperlink the first image is \<^verbatim>\<open>rId12\<close>.
\<close>

theorem C1_counterexample:
  "fst (register_all (NewDocument zero_Config) [RegImage ''png'' ''image/png'' 1 1, RegLink ''http://a''])
     = [''rId11'', ''rId1002'']
   \<and> fst (register_all (NewDocument zero_Config) [RegLink ''http://a'', RegImage ''png'' ''image/png'' 1 1])
     = [''rId1001'', ''rId12'']"
  by (simp add: NewDocument_def AddImage_def AddHyperlink_def Let_def eval_fmt)

theorem C1_shared_counter_witness:
  "fst (register_all (NewDocument zero_Config)
      [RegImage ''a'' ''image/png'' 1 1, RegImage ''b'' ''image/gif'' 1 1, RegImage ''c'' ''x'' 1 1])
     = [''rId11'', ''rId12'', ''rId13'']
   \<and> fst (register_all (NewDocument zero_Config)
      [RegImage ''a'' ''image/png'' 1 1, RegImage ''b'' ''image/gif'' 1 1, RegImage ''c'' ''x'' 1 1]) ! 0
     \<noteq> fst (register_all (NewDocument zero_Config)
      [RegImage ''a'' ''image/png'' 1 1, RegImage ''b'' ''image/gif'' 1 1, RegImage ''c'' ''x'' 1 1]) ! 1"
proof -
  let ?ops = "[RegImage ''a'' ''image/png'' 1 1, RegImage ''b'' ''image/gif'' 1 1, RegImage ''c'' ''x'' 1 1]"
  note t = C1_shared_counter [of zero_Config ?ops]
  have all: "\<forall>op \<in> set ?ops. is_image op" by simp
  with t have "fst (register_all (NewDocument zero_Config) ?ops)
            = map (\<lambda>k. ''rId'' @ fmt_d (int k + 11)) [0..<length ?ops]" by blast
  then have a: "fst (register_all (NewDocument zero_Config) ?ops) = [''rId11'', ''rId12'', ''rId13'']"
    by (simp add: upt_rec eval_fmt)
  have "(0::nat) < 1 \<and> 1 < length ?ops \<and> id_offset (?ops ! 0) = id_offset (?ops ! 1)" by simp
  with t have b: "fst (register_all (NewDocument zero_Config) ?ops) ! 0
                \<noteq> fst (register_all (NewDocument zero_Config) ?ops) ! 1" by blast
  from a b show ?thesis by blast
qed

subsection \<open>C2: heading styles\<close>

text \<open>
  Claim C2, as the code has it. For every heading level from 1 to 9 the style part holds
  one paragraph style, in the order of the levels, between the \<^verbatim>\<open>Normal\<close> style and the
  code style. The style of level \<open>L\<close> takes its font, its size and its bold flag from the
  configuration's own entry for that level, and its outline level is \<open>L - 1\<close>. The size
  is written in half-points: when the size of the entry is a finite number \<open>x\<close> and
  \<open>sz\<close>, which is \<open>x * 2\<close> rounded towards zero, is at least \<open>- 2\<^sup>6\<^sup>3\<close> and less than
  \<open>2\<^sup>6\<^sup>3\<close>, the number written is \<open>sz\<close>. For any other size the number written is left
  to the implementation of the conversion, and nothing is stated of it. There is no fallback to the body style for a
  level between 1 and 9: \<^verbatim>\<open>GetHeadingStyle\<close> returns the body style only for a level
  outside that range, for which the generator never asks.
\<close>

theorem C2_heading_styles:
  assumes "StyleConfig.Size style = Finite x"
    and "sz = (if 0 \<le> x then \<lfloor>x * 2\<rfloor> else \<lceil>x * 2\<rceil>)"
    and "- (2 ^ 63) \<le> sz" and "sz < 2 ^ 63"
  shows \<open>GenerateStyles cfg =
     styles_docDefaults cfg @ styles_Normal cfg
     @ heading_style_xml 1 (Heading1 (Styles cfg)) @ heading_style_xml 2 (Heading2 (Styles cfg))
     @ heading_style_xml 3 (Heading3 (Styles cfg)) @ heading_style_xml 4 (Heading4 (Styles cfg))
     @ heading_style_xml 5 (Heading5 (Styles cfg)) @ heading_style_xml 6 (Heading6 (Styles cfg))
     @ heading_style_xml 7 (Heading7 (Styles cfg)) @ heading_style_xml 8 (Heading8 (Styles cfg))
     @ heading_style_xml 9 (Heading9 (Styles cfg))
     @ styles_Code cfg @ styles_TableGrid @ ''\<newline></w:styles>''
   \<and> heading_style_xml level style =
       ''\<newline>    <w:style w:type="paragraph" w:styleId="Heading'' @ fmt_d level @ ''">'' @
       ''\<newline>        <w:name w:val="heading '' @ fmt_d level @ ''"/>'' @
       ''\<newline>        <w:basedOn w:val="Normal"/>'' @
       ''\<newline>        <w:next w:val="Normal"/>'' @
       ''\<newline>        <w:pPr>'' @
       ''\<newline>            <w:keepNext/>'' @
       ''\<newline>            <w:keepLines/>'' @
       ''\<newline>            <w:spacing w:before="240" w:after="120"/>'' @
       ''\<newline>            <w:outlineLvl w:val="'' @ fmt_d (level - 1) @ ''"/>'' @
       ''\<newline>        </w:pPr>'' @
       ''\<newline>        <w:rPr>'' @
       ''\<newline>            <w:rFonts w:ascii="'' @ StyleConfig.Font style @
       ''" w:eastAsia="'' @ StyleConfig.Font style @
       ''" w:hAnsi="'' @ StyleConfig.Font style @ ''"/>'' @
       ''\<newline>            <w:sz w:val="'' @ fmt_d sz @ ''"/>'' @
       ''\<newline>            <w:szCs w:val="'' @ fmt_d sz @ ''"/>'' @
       (if StyleConfig.Bold style then
          ''\<newline>            <w:b/>'' @
          ''\<newline>            <w:bCs/>''
        else []) @
       ''\<newline>        </w:rPr>'' @
       ''\<newline>    </w:style>''\<close>
proof -
  from assms(2) have sz: "round_to_zero (x * 2) = sz"
    by (simp add: round_to_zero_def zero_le_mult_iff)
  with assms(3,4) have "is_int64 (round_to_zero (x * 2))"
    by (simp add: is_int64_def)
  from float_to_int_double [OF this] sz
  have "float_to_int (float_times_two (Finite x)) = sz" by simp
  with assms(1) show ?thesis
    by (simp add: GenerateStyles_def heading_styles_from_1 heading_style_xml_def Let_def
          del: float_to_int.simps float_times_two.simps)
qed

text \<open>
  The claim as stated fails: with a body style set and the entry of level 1 left empty,
  the style of level 1 is written with an empty font and size 0, not with the body's.
\<close>

theorem C2_counterexample:
  "GetHeadingStyle C2_cfg 1 = zero_StyleConfig
   \<and> fallback_heading_style C2_cfg 1
       = zero_StyleConfig\<lparr>StyleConfig.Font := ''SimSun'', StyleConfig.Size := Finite 12\<rparr>
   \<and> GenerateStyles C2_cfg \<noteq> fallback_GenerateStyles C2_cfg"
  by (simp add: GenerateStyles_def fallback_GenerateStyles_def heading_styles_from_1
        fallback_heading_style_def GetHeadingStyle_def C2_cfg_def zero_Config_def
        zero_StyleConfig_def heading_style_xml_def Let_def MaxFloat64_def is_int64_def round_to_zero_def eval_fmt)

text \<open>The style of level 3 for the font SimHei, size 10.75 and bold: 21 half-points.\<close>

theorem C2_heading_styles_witness:
  \<open>heading_style_xml 3 (zero_StyleConfig\<lparr>StyleConfig.Font := ''SimHei'',
        StyleConfig.Size := Finite (43 / 4), StyleConfig.Bold := True\<rparr>) =
       ''\<newline>    <w:style w:type="paragraph" w:styleId="Heading3">'' @
       ''\<newline>        <w:name w:val="heading 3"/>'' @
       ''\<newline>        <w:basedOn w:val="Normal"/>'' @
       ''\<newline>        <w:next w:val="Normal"/>'' @
       ''\<newline>        <w:pPr>'' @
       ''\<newline>            <w:keepNext/>'' @
       ''\<newline>            <w:keepLines/>'' @
       ''\<newline>            <w:spacing w:before="240" w:after="120"/>'' @
       ''\<newline>            <w:outlineLvl w:val="2"/>'' @
       ''\<newline>        </w:pPr>'' @
       ''\<newline>        <w:rPr>'' @
       ''\<newline>            <w:rFonts w:ascii="SimHei" w:eastAsia="SimHei" w:hAnsi="SimHei"/>'' @
       ''\<newline>            <w:sz w:val="21"/>'' @
       ''\<newline>            <w:szCs w:val="21"/>'' @
       ''\<newline>            <w:b/>'' @
       ''\<newline>            <w:bCs/>'' @
       ''\<newline>        </w:rPr>'' @
       ''\<newline>    </w:style>''
   \<and> (21::int) = (if 0 \<le> (43 / 4 :: rat) then \<lfloor>43 / 4 * 2 :: rat\<rfloor> else \<lceil>43 / 4 * 2 :: rat\<rceil>)
   \<and> - (2 ^ 63) \<le> (21::int) \<and> (21::int) < 2 ^ 63\<close>
proof -
  have f: "\<lfloor>43 / 2 :: rat\<rfloor> = 21" by (simp add: floor_eq_iff)
  have h: "StyleConfig.Size (zero_StyleConfig\<lparr>StyleConfig.Font := ''SimHei'',
        StyleConfig.Size := Finite (43 / 4), StyleConfig.Bold := True\<rparr>) = Finite (43 / 4)"
    "(21::int) = (if 0 \<le> (43 / 4 :: rat) then \<lfloor>43 / 4 * 2 :: rat\<rfloor> else \<lceil>43 / 4 * 2 :: rat\<rceil>)"
    "- (2 ^ 63) \<le> (21::int)" "(21::int) < 2 ^ 63"
    by (simp_all add: f)
  from C2_heading_styles [OF h, of zero_Config 3] h(2,3,4) show ?thesis
    by (simp add: zero_StyleConfig_def eval_fmt del: floor_divide_eq_div_numeral)
qed

subsection \<open>C3: cell alignment\<close>

text \<open>
  Claim C3, as the code has it. Attaching a paragraph to a cell stores it as it is.
  Rendering a table is what resolves the default: it writes the alignment of the cell
  into the alignment field of every paragraph of the cell that has none, before it
  renders the paragraph, and leaves every paragraph that has an alignment of its own,
  and every other field, as they are. The paragraph's own alignment wins.
\<close>

theorem C3_alignment_resolved_when_rendered:
  \<open>Paragraphs (TableCell_AddParagraph c p) = Paragraphs c @ [p]
   \<and> snd (Table_ToXML t) =
       t\<lparr>Rows := map (\<lambda>row. row\<lparr>Cells := map (\<lambda>cell.
              cell\<lparr>Paragraphs := map (default_align (TableCell.Align cell)) (Paragraphs cell)\<rparr>)
            (Cells row)\<rparr>) (Rows t)\<rparr>
   \<and> fst (TableCell_ToXML cell) =
       TableCell_tcPr cell @
       (if Paragraphs cell = [] then ''\<newline>                    <w:p/>''
        else concat (map (\<lambda>q. Paragraph_ToXML (default_align (TableCell.Align cell) q))
                       (Paragraphs cell))) @
       ''\<newline>                </w:tc>''
   \<and> default_align a q =
       q\<lparr>Paragraph.Align := (if Paragraph.Align q = [] then a else Paragraph.Align q)\<rparr>\<close>
  by (simp add: Table_ToXML_eq TableRow_ToXML_eq TableCell_ToXML_eq TableCell_AddParagraph_def
        default_align_eq)

text \<open>
  The claim as stated fails: a paragraph attached without alignment to a centred cell
  still has none after the attachment, and is centred after the table is rendered.
\<close>

theorem C3_counterexample:
  "paragraph_aligns C3_table = [[[[]]]]
   \<and> paragraph_aligns (snd (Table_ToXML C3_table)) = [[[''center'']]]"
  by (simp add: paragraph_aligns_def C3_table_def C3_cell_def TableCell_AddParagraph_def
        NewTableCell_def NewParagraph_def NewTable_def Table_ToXML_eq TableRow_ToXML_eq
        TableCell_ToXML_eq default_align_def)

theorem C3_alignment_resolved_when_rendered_witness:
  "Paragraphs C3_cell = [NewParagraph []]
   \<and> snd (Table_ToXML C3_table) =
       NewTable\<lparr>Rows := [\<lparr> Cells = [NewTableCell\<lparr>TableCell.Align := ''center'',
          Paragraphs := [(NewParagraph [])\<lparr>Paragraph.Align := ''center''\<rparr>]\<rparr>], IsHeader = False \<rparr>]\<rparr>
   \<and> default_align ''center'' ((NewParagraph [])\<lparr>Paragraph.Align := ''right''\<rparr>)
      = (NewParagraph [])\<lparr>Paragraph.Align := ''right''\<rparr>"
  using C3_alignment_resolved_when_rendered
          [of "NewTableCell\<lparr>TableCell.Align := ''center''\<rparr>" "NewParagraph []" C3_table
              C3_cell "''center''" "(NewParagraph [])\<lparr>Paragraph.Align := ''right''\<rparr>"]
  by (simp add: C3_table_def C3_cell_def TableCell_AddParagraph_def
        NewTableCell_def NewParagraph_def NewTable_def default_align_def)

subsection \<open>C4: the order of the archive\<close>

text \<open>
  Claim C4. When the directory, the file and every entry can be written, \<^verbatim>\<open>Save\<close>
  succeeds and the archive holds, in this order: the content-type manifest, the root
  relationship part, the body-relationship part, the style sheet, the body part, and
  one media entry for each key of the image map, with the image's bytes.

  The body-relationship part lists the relationship to the style sheet and then one
  \<^verbatim>\<open>Relationship\<close> element for every relationship of \<^verbatim>\<open>contentRels\<close>, in the order of the
  slice, with its ID, type and target, and its target mode when it has one. \<^verbatim>\<open>AddImage\<close>
  and \<^verbatim>\<open>AddHyperlink\<close> each append one relationship to the end of that slice, under the
  ID they return, so after any registrations on a new document the IDs listed are the
  IDs returned, in the order of the calls.

  The body part is the header, then the markup of every element in the order of the
  slice \<^verbatim>\<open>elements\<close> (the markup of the paragraph or of the table), then the
  page-geometry trailer. \<^verbatim>\<open>AddParagraph\<close> appends to the end of the slice, so the order
  of the elements is the order of insertion.

  There are as many media entries as the map has keys, and a document built from a new
  one by registrations has as many keys as there were calls of \<^verbatim>\<open>AddImage\<close>.
\<close>

theorem C4_save_order:
  assumes "MkdirAll_ok env path" and "Create_ok env path"
    and "\<forall>name \<in> set ([''[Content_Types].xml'', ''_rels/.rels'', ''word/_rels/document.xml.rels'',
            ''word/styles.xml'', ''word/document.xml''] @ map (\<lambda>name. ''word/media/'' @ name) names).
          entry_ok env name"
    and "distinct names" and "set names = dom (images d)"
  shows \<open>Save env names d path =
     Inr ([(''[Content_Types].xml'',
              ''<?xml version="1.0" encoding="UTF-8" standalone="yes"?>'' @
              ''\<newline><Types xmlns="http://schemas.openxmlformats.org/package/2006/content-types">'' @
              ''\<newline>    <Default Extension="rels" ContentType="application/vnd.openxmlformats-package.relationships+xml"/>'' @
              ''\<newline>    <Default Extension="xml" ContentType="application/xml"/>'' @
              ''\<newline>    <Default Extension="png" ContentType="image/png"/>'' @
              ''\<newline>    <Default Extension="jpg" ContentType="image/jpeg"/>'' @
              ''\<newline>    <Default Extension="jpeg" ContentType="image/jpeg"/>'' @
              ''\<newline>    <Default Extension="gif" ContentType="image/gif"/>'' @
              ''\<newline>    <Override PartName="/word/document.xml" ContentType="application/vnd.openxmlformats-officedocument.wordprocessingml.document.main+xml"/>'' @
              ''\<newline>    <Override PartName="/word/styles.xml" ContentType="application/vnd.openxmlformats-officedocument.wordprocessingml.styles+xml"/>'' @
              ''\<newline></Types>''),
           (''_rels/.rels'',
              ''<?xml version="1.0" encoding="UTF-8" standalone="yes"?>'' @
              ''\<newline><Relationships xmlns="http://schemas.openxmlformats.org/package/2006/relationships">'' @
              ''\<newline>    <Relationship Id="rId1" Type="http://schemas.openxmlformats.org/officeDocument/2006/relationships/officeDocument" Target="word/document.xml"/>'' @
              ''\<newline></Relationships>''),
           (''word/_rels/document.xml.rels'',
              ''<?xml version="1.0" encoding="UTF-8" standalone="yes"?>'' @
              ''\<newline><Relationships xmlns="http://schemas.openxmlformats.org/package/2006/relationships">'' @
              ''\<newline>    <Relationship Id="rId1" Type="http://schemas.openxmlformats.org/officeDocument/2006/relationships/styles" Target="styles.xml"/>'' @
              concat (map Relationship_xml (contentRels d)) @
              ''\<newline></Relationships>''),
           (''word/styles.xml'', GenerateStyles (config d)),
           (''word/document.xml'',
              ''<?xml version="1.0" encoding="UTF-8" standalone="yes"?>'' @
              ''\<newline><w:document xmlns:w="http://schemas.openxmlformats.org/wordprocessingml/2006/main"'' @
              ''\<newline>            xmlns:wp="http://schemas.openxmlformats.org/drawingml/2006/wordprocessingDrawing"'' @
              ''\<newline>            xmlns:a="http://schemas.openxmlformats.org/drawingml/2006/main"'' @
              ''\<newline>            xmlns:pic="http://schemas.openxmlformats.org/drawingml/2006/picture"'' @
              ''\<newline>            xmlns:r="http://schemas.openxmlformats.org/officeDocument/2006/relationships">'' @
              ''\<newline>    <w:body>'' @
              concat (map (\<lambda>elem. fst (Element_ToXML elem)) (elements d)) @
              ''\<newline>        <w:sectPr>'' @
              ''\<newline>            <w:pgSz w:w="11906" w:h="16838"/>'' @
              ''\<newline>            <w:pgMar w:top="1440" w:right="1800" w:bottom="1440" w:left="1800" w:header="851" w:footer="992" w:gutter="0"/>'' @
              ''\<newline>        </w:sectPr>'' @
              ''\<newline>    </w:body>'' @
              ''\<newline></w:document>'')]
          @ map (\<lambda>name. (''word/media/'' @ name, Data (the (images d name)))) names,
          d\<lparr>elements := map (\<lambda>elem. snd (Element_ToXML elem)) (elements d)\<rparr>)
     \<and> Relationship_xml rel =
         (if TargetMode rel \<noteq> [] then
            ''\<newline>    <Relationship Id="'' @ Relationship.ID rel @ ''" Type="'' @ Type rel @
            ''" Target="'' @ Target rel @ ''" TargetMode="'' @ TargetMode rel @ ''"/>''
          else
            ''\<newline>    <Relationship Id="'' @ Relationship.ID rel @ ''" Type="'' @ Type rel @
            ''" Target="'' @ Target rel @ ''"/>'')
     \<and> contentRels (snd (AddImage d data contentType width height)) =
         contentRels d @
           [\<lparr> Relationship.ID = fst (AddImage d data contentType width height),
              Type = ''http://schemas.openxmlformats.org/officeDocument/2006/relationships/image'',
              Target = ''media/image'' @ fmt_d (imageCount d + 1) @ image_ext contentType,
              TargetMode = [] \<rparr>]
     \<and> contentRels (snd (AddHyperlink d target)) =
         contentRels d @
           [\<lparr> Relationship.ID = fst (AddHyperlink d target),
              Type = ''http://schemas.openxmlformats.org/officeDocument/2006/relationships/hyperlink'',
              Target = target,
              TargetMode = ''External'' \<rparr>]
     \<and> map Relationship.ID (contentRels (snd (register_all (NewDocument cfg) ops)))
         = fst (register_all (NewDocument cfg) ops)
     \<and> fst (Element_ToXML (ParagraphElement p)) = Paragraph_ToXML p
     \<and> fst (Element_ToXML (TableElement t)) = fst (Table_ToXML t)
     \<and> elements (AddParagraph d elem) = elements d @ [elem]
     \<and> length names = card (dom (images d))
     \<and> card (dom (images (snd (register_all (NewDocument cfg) ops))))
         = length (filter is_image ops)\<close>
proof -
  from assms(3) have media: "\<forall>name \<in> set names. entry_ok env (''word/media/'' @ name)"
    by simp
  from assms(5) have sub: "set names \<subseteq> dom (images d)" by simp
  from assms(3) have fixed: "entry_ok env ''[Content_Types].xml''" "entry_ok env ''_rels/.rels''"
    "entry_ok env ''word/_rels/document.xml.rels''" "entry_ok env ''word/styles.xml''"
    "entry_ok env ''word/document.xml''" by simp_all
  from assms(4,5) have len: "length names = card (dom (images d))"
    by (metis distinct_card)
  have save: "Save env names d path =
     Inr ([(''[Content_Types].xml'', ContentTypes_xml),
           (''_rels/.rels'', Rels_xml),
           (''word/_rels/document.xml.rels'', DocumentRels_xml d),
           (''word/styles.xml'', GenerateStyles (config d)),
           (''word/document.xml'',
              Document_header @ concat (map (\<lambda>elem. fst (Element_ToXML elem)) (elements d))
                @ Document_trailer)]
          @ map (\<lambda>name. (''word/media/'' @ name, Data (the (images d name)))) names,
          d\<lparr>elements := map (\<lambda>elem. snd (Element_ToXML elem)) (elements d)\<rparr>)"
    using assms(1,2) fixed
    by (simp add: Save_def or_return_def writeContentTypes_def writeRels_def
          writeDocumentRels_def writeStyles_def writeDocument_def zip_write_def
          elements_ToXML_eq writeImages_ok [OF media sub])
  have rel: \<open>Relationship_xml rel =
         (if TargetMode rel \<noteq> [] then
            ''\<newline>    <Relationship Id="'' @ Relationship.ID rel @ ''" Type="'' @ Type rel @
            ''" Target="'' @ Target rel @ ''" TargetMode="'' @ TargetMode rel @ ''"/>''
          else
            ''\<newline>    <Relationship Id="'' @ Relationship.ID rel @ ''" Type="'' @ Type rel @
            ''" Target="'' @ Target rel @ ''"/>'')\<close>
    by (simp add: Relationship_xml_def)
  have img: \<open>contentRels (snd (AddImage d data contentType width height)) =
         contentRels d @
           [\<lparr> Relationship.ID = fst (AddImage d data contentType width height),
              Type = ''http://schemas.openxmlformats.org/officeDocument/2006/relationships/image'',
              Target = ''media/image'' @ fmt_d (imageCount d + 1) @ image_ext contentType,
              TargetMode = [] \<rparr>]\<close>
    by (simp add: AddImage_def Let_def)
  have link: \<open>contentRels (snd (AddHyperlink d target)) =
         contentRels d @
           [\<lparr> Relationship.ID = fst (AddHyperlink d target),
              Type = ''http://schemas.openxmlformats.org/officeDocument/2006/relationships/hyperlink'',
              Target = target,
              TargetMode = ''External'' \<rparr>]\<close>
    by (simp add: AddHyperlink_def Let_def)
  have elem: "fst (Element_ToXML (ParagraphElement p)) = Paragraph_ToXML p"
    "fst (Element_ToXML (TableElement t)) = fst (Table_ToXML t)"
    "elements (AddParagraph d elem) = elements d @ [elem]"
    by (simp_all add: split_beta AddParagraph_def)
  have c1: \<open>Save env names d path =
     Inr ([(''[Content_Types].xml'',
              ''<?xml version="1.0" encoding="UTF-8" standalone="yes"?>'' @
              ''\<newline><Types xmlns="http://schemas.openxmlformats.org/package/2006/content-types">'' @
              ''\<newline>    <Default Extension="rels" ContentType="application/vnd.openxmlformats-package.relationships+xml"/>'' @
              ''\<newline>    <Default Extension="xml" ContentType="application/xml"/>'' @
              ''\<newline>    <Default Extension="png" ContentType="image/png"/>'' @
              ''\<newline>    <Default Extension="jpg" ContentType="image/jpeg"/>'' @
              ''\<newline>    <Default Extension="jpeg" ContentType="image/jpeg"/>'' @
              ''\<newline>    <Default Extension="gif" ContentType="image/gif"/>'' @
              ''\<newline>    <Override PartName="/word/document.xml" ContentType="application/vnd.openxmlformats-officedocument.wordprocessingml.document.main+xml"/>'' @
              ''\<newline>    <Override PartName="/word/styles.xml" ContentType="application/vnd.openxmlformats-officedocument.wordprocessingml.styles+xml"/>'' @
              ''\<newline></Types>''),
           (''_rels/.rels'',
              ''<?xml version="1.0" encoding="UTF-8" standalone="yes"?>'' @
              ''\<newline><Relationships xmlns="http://schemas.openxmlformats.org/package/2006/relationships">'' @
              ''\<newline>    <Relationship Id="rId1" Type="http://schemas.openxmlformats.org/officeDocument/2006/relationships/officeDocument" Target="word/document.xml"/>'' @
              ''\<newline></Relationships>''),
           (''word/_rels/document.xml.rels'',
              ''<?xml version="1.0" encoding="UTF-8" standalone="yes"?>'' @
              ''\<newline><Relationships xmlns="http://schemas.openxmlformats.org/package/2006/relationships">'' @
              ''\<newline>    <Relationship Id="rId1" Type="http://schemas.openxmlformats.org/officeDocument/2006/relationships/styles" Target="styles.xml"/>'' @
              concat (map Relationship_xml (contentRels d)) @
              ''\<newline></Relationships>''),
           (''word/styles.xml'', GenerateStyles (config d)),
           (''word/document.xml'',
              ''<?xml version="1.0" encoding="UTF-8" standalone="yes"?>'' @
              ''\<newline><w:document xmlns:w="http://schemas.openxmlformats.org/wordprocessingml/2006/main"'' @
              ''\<newline>            xmlns:wp="http://schemas.openxmlformats.org/drawingml/2006/wordprocessingDrawing"'' @
              ''\<newline>            xmlns:a="http://schemas.openxmlformats.org/drawingml/2006/main"'' @
              ''\<newline>            xmlns:pic="http://schemas.openxmlformats.org/drawingml/2006/picture"'' @
              ''\<newline>            xmlns:r="http://schemas.openxmlformats.org/officeDocument/2006/relationships">'' @
              ''\<newline>    <w:body>'' @
              concat (map (\<lambda>elem. fst (Element_ToXML elem)) (elements d)) @
              ''\<newline>        <w:sectPr>'' @
              ''\<newline>            <w:pgSz w:w="11906" w:h="16838"/>'' @
              ''\<newline>            <w:pgMar w:top="1440" w:right="1800" w:bottom="1440" w:left="1800" w:header="851" w:footer="992" w:gutter="0"/>'' @
              ''\<newline>        </w:sectPr>'' @
              ''\<newline>    </w:body>'' @
              ''\<newline></w:document>'')]
          @ map (\<lambda>name. (''word/media/'' @ name, Data (the (images d name)))) names,
          d\<lparr>elements := map (\<lambda>elem. snd (Element_ToXML elem)) (elements d)\<rparr>)\<close>
    by (simp add: save ContentTypes_xml_def Rels_xml_def DocumentRels_xml_def Document_header_def
          Document_trailer_def)
  show ?thesis
    by (intro conjI c1 rel img link elem len registered_ids_listed registered_images_card)
qed

text \<open>
  A document with a paragraph and a table, one image and one hyperlink: the six entries,
  with the two relationships listed and the two elements in the body before the trailer.
\<close>

theorem C4_save_order_witness:
  \<open>Save env_ok [''image1.gif''] C4_doc ''out/a.docx'' =
     Inr ([(''[Content_Types].xml'', ContentTypes_xml),
           (''_rels/.rels'', Rels_xml),
           (''word/_rels/document.xml.rels'',
              ''<?xml version="1.0" encoding="UTF-8" standalone="yes"?>'' @
              ''\<newline><Relationships xmlns="http://schemas.openxmlformats.org/package/2006/relationships">'' @
              ''\<newline>    <Relationship Id="rId1" Type="http://schemas.openxmlformats.org/officeDocument/2006/relationships/styles" Target="styles.xml"/>'' @
              ''\<newline>    <Relationship Id="rId11" Type="http://schemas.openxmlformats.org/officeDocument/2006/relationships/image" Target="media/image1.gif"/>'' @
              ''\<newline>    <Relationship Id="rId1002" Type="http://schemas.openxmlformats.org/officeDocument/2006/relationships/hyperlink" Target="https://example.com/" TargetMode="External"/>'' @
              ''\<newline></Relationships>''),
           (''word/styles.xml'', GenerateStyles zero_Config),
           (''word/document.xml'',
              ''<?xml version="1.0" encoding="UTF-8" standalone="yes"?>'' @
              ''\<newline><w:document xmlns:w="http://schemas.openxmlformats.org/wordprocessingml/2006/main"'' @
              ''\<newline>            xmlns:wp="http://schemas.openxmlformats.org/drawingml/2006/wordprocessingDrawing"'' @
              ''\<newline>            xmlns:a="http://schemas.openxmlformats.org/drawingml/2006/main"'' @
              ''\<newline>            xmlns:pic="http://schemas.openxmlformats.org/drawingml/2006/picture"'' @
              ''\<newline>            xmlns:r="http://schemas.openxmlformats.org/officeDocument/2006/relationships">'' @
              ''\<newline>    <w:body>'' @
              ''\<newline>        <w:p>'' @
              ''\<newline>            <w:r>'' @
              ''\<newline>                <w:t>hello</w:t>'' @
              ''\<newline>            </w:r>'' @
              ''\<newline>        </w:p>'' @
              ''\<newline>        <w:tbl>'' @
              ''\<newline>            <w:tblPr>'' @
              ''\<newline>                <w:tblStyle w:val="TableGrid"/>'' @
              ''\<newline>                <w:tblW w:w="0" w:type="auto"/>'' @
              ''\<newline>                <w:tblLook w:val="04A0" w:firstRow="1" w:lastRow="0" w:firstColumn="1" w:lastColumn="0" w:noHBand="0" w:noVBand="1"/>'' @
              ''\<newline>                <w:tblBorders>'' @
              ''\<newline>                    <w:top w:val="single" w:sz="4" w:space="0" w:color="auto"/>'' @
              ''\<newline>                    <w:left w:val="single" w:sz="4" w:space="0" w:color="auto"/>'' @
              ''\<newline>                    <w:bottom w:val="single" w:sz="4" w:space="0" w:color="auto"/>'' @
              ''\<newline>                    <w:right w:val="single" w:sz="4" w:space="0" w:color="auto"/>'' @
              ''\<newline>                    <w:insideH w:val="single" w:sz="4" w:space="0" w:color="auto"/>'' @
              ''\<newline>                    <w:insideV w:val="single" w:sz="4" w:space="0" w:color="auto"/>'' @
              ''\<newline>                </w:tblBorders>'' @
              ''\<newline>            </w:tblPr>'' @
              ''\<newline>            <w:tr>'' @
              ''\<newline>                <w:tc>'' @
              ''\<newline>                    <w:tcPr>'' @
              ''\<newline>                    </w:tcPr>'' @
              ''\<newline>                    <w:p/>'' @
              ''\<newline>                </w:tc>'' @
              ''\<newline>            </w:tr>'' @
              ''\<newline>        </w:tbl>'' @
              ''\<newline>        <w:sectPr>'' @
              ''\<newline>            <w:pgSz w:w="11906" w:h="16838"/>'' @
              ''\<newline>            <w:pgMar w:top="1440" w:right="1800" w:bottom="1440" w:left="1800" w:header="851" w:footer="992" w:gutter="0"/>'' @
              ''\<newline>        </w:sectPr>'' @
              ''\<newline>    </w:body>'' @
              ''\<newline></w:document>''),
           (''word/media/image1.gif'', ''GIF89a'')],
          C4_doc)\<close>
proof -
  have img: "images C4_doc = [''image1.gif'' \<mapsto>
      \<lparr> Data = ''GIF89a'', ContentType = ''image/gif'', Width = 1, Height = 1 \<rparr>]"
    by (simp add: C4_doc_def AddImage_def AddHyperlink_def AddParagraph_def NewDocument_def
          Let_def image_ext_def eval_fmt)
  have h: "MkdirAll_ok env_ok ''out/a.docx''" "Create_ok env_ok ''out/a.docx''"
    "\<forall>name \<in> set ([''[Content_Types].xml'', ''_rels/.rels'', ''word/_rels/document.xml.rels'',
            ''word/styles.xml'', ''word/document.xml'']
            @ map (\<lambda>name. ''word/media/'' @ name) [''image1.gif'']). entry_ok env_ok name"
    "distinct [''image1.gif'']" "set [''image1.gif''] = dom (images C4_doc)"
    by (simp_all add: env_ok_def img)
  have doc: "C4_doc = \<lparr> config = zero_Config,
      elements = [ParagraphElement ((NewParagraph [])\<lparr>Children := [RunChild (zero_Run\<lparr>Text := ''hello''\<rparr>)]\<rparr>),
                  TableElement C8_table],
      images = [''image1.gif'' \<mapsto>
        \<lparr> Data = ''GIF89a'', ContentType = ''image/gif'', Width = 1, Height = 1 \<rparr>],
      imageCount = 2, rels = [],
      contentRels =
        [\<lparr> Relationship.ID = ''rId11'',
           Type = ''http://schemas.openxmlformats.org/officeDocument/2006/relationships/image'',
           Target = ''media/image1.gif'', TargetMode = [] \<rparr>,
         \<lparr> Relationship.ID = ''rId1002'',
           Type = ''http://schemas.openxmlformats.org/officeDocument/2006/relationships/hyperlink'',
           Target = ''https://example.com/'', TargetMode = ''External'' \<rparr>] \<rparr>"
    by (simp add: C4_doc_def AddImage_def AddHyperlink_def AddParagraph_def NewDocument_def
          Paragraph_AddRun_def NewParagraph_def Let_def image_ext_def eval_fmt)
  have para: \<open>Paragraph_ToXML ((NewParagraph [])\<lparr>Children := [RunChild (zero_Run\<lparr>Text := ''hello''\<rparr>)]\<rparr>) =
       ''\<newline>        <w:p>'' @
       ''\<newline>            <w:r>'' @
       ''\<newline>                <w:t>hello</w:t>'' @
       ''\<newline>            </w:r>'' @
       ''\<newline>        </w:p>''\<close>
    by (simp add: Paragraph_ToXML_def Paragraph_pPr_def NewParagraph_def Run_ToXML_def
          Run_rPr_def Run_content_def text_element_def zero_Run_def Let_def
          eval_strings eval_escape)
  have table: \<open>Table_ToXML C8_table =
      (''\<newline>        <w:tbl>'' @
       ''\<newline>            <w:tblPr>'' @
       ''\<newline>                <w:tblStyle w:val="TableGrid"/>'' @
       ''\<newline>                <w:tblW w:w="0" w:type="auto"/>'' @
       ''\<newline>                <w:tblLook w:val="04A0" w:firstRow="1" w:lastRow="0" w:firstColumn="1" w:lastColumn="0" w:noHBand="0" w:noVBand="1"/>'' @
       ''\<newline>                <w:tblBorders>'' @
       ''\<newline>                    <w:top w:val="single" w:sz="4" w:space="0" w:color="auto"/>'' @
       ''\<newline>                    <w:left w:val="single" w:sz="4" w:space="0" w:color="auto"/>'' @
       ''\<newline>                    <w:bottom w:val="single" w:sz="4" w:space="0" w:color="auto"/>'' @
       ''\<newline>                    <w:right w:val="single" w:sz="4" w:space="0" w:color="auto"/>'' @
       ''\<newline>                    <w:insideH w:val="single" w:sz="4" w:space="0" w:color="auto"/>'' @
       ''\<newline>                    <w:insideV w:val="single" w:sz="4" w:space="0" w:color="auto"/>'' @
       ''\<newline>                </w:tblBorders>'' @
       ''\<newline>            </w:tblPr>'' @
       ''\<newline>            <w:tr>'' @
       ''\<newline>                <w:tc>'' @
       ''\<newline>                    <w:tcPr>'' @
       ''\<newline>                    </w:tcPr>'' @
       ''\<newline>                    <w:p/>'' @
       ''\<newline>                </w:tc>'' @
       ''\<newline>            </w:tr>'' @
       ''\<newline>        </w:tbl>'',
       C8_table)\<close>
    by (simp add: Table_ToXML_eq TableRow_ToXML_eq TableCell_ToXML_eq Table_tblPr_def
          TableCell_tcPr_def C8_table_def NewTable_def NewTableCell_def Let_def)
  from C4_save_order [OF h, THEN conjunct1] show ?thesis
    by (simp add: doc para table Relationship_xml_def ContentTypes_xml_def Rels_xml_def)
qed

subsection \<open>C5: the preserve-whitespace marker\<close>

text \<open>
  Claim C5. A run that is not an image and has a non-empty text is rendered with one
  text element, which holds the escaped text. The element carries the marker
  \<^verbatim>\<open>xml:space="preserve"\<close> exactly when the text of the run starts with a space, ends
  with a space or holds two spaces in a row. A run with an empty text has no text
  element.
\<close>

theorem C5_preserve_marker:
  assumes "\<not> IsImage r"
  shows \<open>Run_ToXML r =
       ''\<newline>            <w:r>'' @ Run_rPr r @
       (if Text r = [] then []
        else
          (if HasPrefix (Text r) '' '' \<or> HasSuffix (Text r) '' '' \<or> Contains (Text r) ''  ''
           then ''\<newline>                <w:t xml:space="preserve">''
           else ''\<newline>                <w:t>'') @ XMLEscape (Text r) @ ''</w:t>'') @
       ''\<newline>            </w:r>''\<close>
proof (cases "Text r = []")
  case True
  with assms show ?thesis by (simp add: Run_ToXML_def Run_content_def)
next
  case False
  with assms show ?thesis
    by (simp add: Run_ToXML_def Run_content_text text_element_XMLEscape del: Contains.simps)
qed

theorem C5_preserve_marker_witness:
  \<open>Run_ToXML (zero_Run\<lparr>Text := ''a b''\<rparr>) =
       ''\<newline>            <w:r>'' @
       ''\<newline>                <w:t>a b</w:t>'' @
       ''\<newline>            </w:r>''
   \<and> Run_ToXML (zero_Run\<lparr>Text := ''a  b''\<rparr>) =
       ''\<newline>            <w:r>'' @
       ''\<newline>                <w:t xml:space="preserve">a  b</w:t>'' @
       ''\<newline>            </w:r>''\<close>
proof -
  have a: "\<not> IsImage (zero_Run\<lparr>Text := ''a b''\<rparr>)" by (simp add: zero_Run_def)
  have b: "\<not> IsImage (zero_Run\<lparr>Text := ''a  b''\<rparr>)" by (simp add: zero_Run_def)
  from C5_preserve_marker [OF a] C5_preserve_marker [OF b] show ?thesis
    by (simp add: zero_Run_def Run_rPr_def eval_strings eval_escape)
qed

subsection \<open>C6: line breaks\<close>

text \<open>
  Claim C6 does not hold of the code. \<^verbatim>\<open>XMLEscape\<close> replaces every newline by the
  character reference \<^verbatim>\<open>&#xA;\<close> before \<^verbatim>\<open>strings.Split\<close> looks for newlines, so the
  split always returns one line: a text run is rendered as one text element, whatever
  newlines its text holds, and the branch that writes the line break is never taken.
\<close>

theorem C6_newline_escaped_before_split:
  assumes "\<not> IsImage r" and "Text r \<noteq> []"
  shows "XMLEscape (a @ CHR ''\<newline>'' # b) = XMLEscape a @ ''&#xA;'' @ XMLEscape b
     \<and> Split (XMLEscape (Text r)) CHR ''\<newline>'' = [XMLEscape (Text r)]
     \<and> Run_content r = text_element (XMLEscape (Text r))"
  using assms
  by (simp add: Split_XMLEscape Run_content_text)
     (simp add: XMLEscape_def escapeText_append_ascii escape_of_def)

text \<open>A text with one newline: one text element, no line break.\<close>

theorem C6_newline_escaped_before_split_witness:
  \<open>Run_content (zero_Run\<lparr>Text := ''a\<newline>b''\<rparr>) = ''\<newline>                <w:t>a&#xA;b</w:t>''\<close>
proof -
  have h: "\<not> IsImage (zero_Run\<lparr>Text := ''a\<newline>b''\<rparr>)" "Text (zero_Run\<lparr>Text := ''a\<newline>b''\<rparr>) \<noteq> []"
    by (simp_all add: zero_Run_def)
  from C6_newline_escaped_before_split [OF h] show ?thesis
    by (simp add: zero_Run_def text_element_def eval_strings eval_escape)
qed

subsection \<open>C7: the runs of a hyperlink\<close>

text \<open>
  Claim C7. Whatever runs the walk over the children of a link puts into the hyperlink,
  the hyperlink that the \<^verbatim>\<open>*ast.Link\<close> case appends to the paragraph holds the same
  runs in the same order, where every run that had no colour has the link colour
  \<^verbatim>\<open>0563C1\<close> and is underlined, and a run that had a colour keeps it.
\<close>

theorem C7_link_runs_styled:
  assumes "walk (snd (AddHyperlink d url),
                 \<lparr> Hyperlink.ID = fst (AddHyperlink d url), Runs = [] \<rparr>) = (d2, link)"
  shows "processLink walk url d para =
           (d2, para\<lparr>Children := Children para @
                  [HyperlinkChild (link\<lparr>Runs := link_style_runs (Runs link)\<rparr>)]\<rparr>)
     \<and> length (link_style_runs (Runs link)) = length (Runs link)
     \<and> (\<forall>i < length (Runs link).
           (Run.Color (Runs link ! i) = [] \<longrightarrow>
              Run.Color (link_style_runs (Runs link) ! i) = ''0563C1''
              \<and> Underline (link_style_runs (Runs link) ! i))
         \<and> (Run.Color (Runs link ! i) \<noteq> [] \<longrightarrow>
              Run.Color (link_style_runs (Runs link) ! i) = Run.Color (Runs link ! i)))"
  using assms by (simp add: processLink_def split_beta Let_def link_style_runs_eq)

theorem C7_link_runs_styled_witness:
  "C7_walk (snd (AddHyperlink (NewDocument zero_Config) ''http://a''),
            \<lparr> Hyperlink.ID = fst (AddHyperlink (NewDocument zero_Config) ''http://a''), Runs = [] \<rparr>)
     = (snd (AddHyperlink (NewDocument zero_Config) ''http://a''),
        \<lparr> Hyperlink.ID = ''rId1001'', Runs = [zero_Run\<lparr>Text := ''here''\<rparr>] \<rparr>)
   \<and> Children (snd (processLink C7_walk ''http://a'' (NewDocument zero_Config) (NewParagraph [])))
     = [HyperlinkChild \<lparr> Hyperlink.ID = ''rId1001'',
          Runs = [zero_Run\<lparr>Text := ''here'', Run.Color := ''0563C1'', Underline := True\<rparr>] \<rparr>]"
proof -
  have w: "C7_walk (snd (AddHyperlink (NewDocument zero_Config) ''http://a''),
            \<lparr> Hyperlink.ID = fst (AddHyperlink (NewDocument zero_Config) ''http://a''), Runs = [] \<rparr>)
     = (snd (AddHyperlink (NewDocument zero_Config) ''http://a''),
        \<lparr> Hyperlink.ID = ''rId1001'', Runs = [zero_Run\<lparr>Text := ''here''\<rparr>] \<rparr>)"
    by (simp add: C7_walk_def Hyperlink_AddRun_def AddHyperlink_def NewDocument_def Let_def eval_fmt)
  from C7_link_runs_styled
         [where walk = C7_walk and d = "NewDocument zero_Config" and url = "''http://a''"
            and para = "NewParagraph []", OF w] w
  show ?thesis
    by (simp add: NewParagraph_def zero_Run_def)
qed

subsection \<open>C8: empty cells\<close>

text \<open>
  Claim C8. The markup of a table is its properties, then for each row the markup of
  each of its cells in order; and a cell with zero paragraphs is rendered as its
  cell-properties block followed by exactly one empty paragraph element \<^verbatim>\<open><w:p/>\<close>.
\<close>

theorem C8_empty_cell:
  \<open>fst (Table_ToXML t) =
     Table_tblPr t @
     concat (map (\<lambda>row.
       ''\<newline>            <w:tr>'' @
       (if IsHeader row then
          ''\<newline>                <w:trPr>'' @
          ''\<newline>                    <w:tblHeader/>'' @
          ''\<newline>                </w:trPr>''
        else []) @
       concat (map (\<lambda>cell. fst (TableCell_ToXML cell)) (Cells row)) @
       ''\<newline>            </w:tr>'') (Rows t)) @
     ''\<newline>        </w:tbl>''
   \<and> (\<forall>row \<in> set (Rows t). \<forall>cell \<in> set (Cells row).
        length (Paragraphs cell) = 0 \<longrightarrow>
          fst (TableCell_ToXML cell) =
            TableCell_tcPr cell @
            ''\<newline>                    <w:p/>'' @
            ''\<newline>                </w:tc>'')\<close>
  by (simp add: Table_ToXML_eq TableRow_ToXML_eq TableCell_ToXML_empty)

theorem C8_empty_cell_witness:
  \<open>length (Paragraphs NewTableCell) = 0
   \<and> fst (TableCell_ToXML NewTableCell) =
       ''\<newline>                <w:tc>'' @
       ''\<newline>                    <w:tcPr>'' @
       ''\<newline>                    </w:tcPr>'' @
       ''\<newline>                    <w:p/>'' @
       ''\<newline>                </w:tc>''\<close>
proof -
  have a: "NewTableCell \<in> set (Cells \<lparr> Cells = [NewTableCell], IsHeader = False \<rparr>)" by simp
  have b: "\<lparr> Cells = [NewTableCell], IsHeader = False \<rparr> \<in> set (Rows C8_table)"
    by (simp add: C8_table_def)
  have c: "length (Paragraphs NewTableCell) = 0" by (simp add: NewTableCell_def)
  from C8_empty_cell [of C8_table] a b c
  have "fst (TableCell_ToXML NewTableCell) =
            TableCell_tcPr NewTableCell @
            ''\<newline>                    <w:p/>'' @
            ''\<newline>                </w:tc>''" by blast
  with c show ?thesis by (simp add: TableCell_tcPr_def NewTableCell_def)
qed

subsection \<open>C9: unrecognized content types\<close>

text \<open>
  Claim C9. \<^verbatim>\<open>AddImage\<close> has no failing branch. With a content type that is none of
  \<^verbatim>\<open>image/jpeg\<close>, \<^verbatim>\<open>image/gif\<close> and \<^verbatim>\<open>image/svg+xml\<close>, it returns its ID and stores
  the image under a file name that ends in \<^verbatim>\<open>.png\<close>, which is also the target of the
  relationship it appends.
\<close>

theorem C9_unrecognized_content_type:
  assumes "contentType \<noteq> ''image/jpeg''" and "contentType \<noteq> ''image/gif''"
    and "contentType \<noteq> ''image/svg+xml''"
  shows "AddImage d data contentType width height =
     (''rId'' @ fmt_d (imageCount d + 1 + 10),
      d\<lparr>imageCount := imageCount d + 1,
        images := (images d)(''image'' @ fmt_d (imageCount d + 1) @ ''.png'' \<mapsto>
            \<lparr> Data = data, ContentType = contentType, Width = width, Height = height \<rparr>),
        contentRels := contentRels d @
            [\<lparr> Relationship.ID = ''rId'' @ fmt_d (imageCount d + 1 + 10),
               Type = ''http://schemas.openxmlformats.org/officeDocument/2006/relationships/image'',
               Target = ''media/'' @ ''image'' @ fmt_d (imageCount d + 1) @ ''.png'',
               TargetMode = [] \<rparr>]\<rparr>)"
  using assms by (simp add: AddImage_def image_ext_def Let_def)

theorem C9_unrecognized_content_type_witness:
  "''application/pdf'' \<noteq> ''image/jpeg'' \<and> ''application/pdf'' \<noteq> ''image/gif''
   \<and> ''application/pdf'' \<noteq> ''image/svg+xml''
   \<and> fst (AddImage (NewDocument zero_Config) ''%PDF'' ''application/pdf'' 300 200) = ''rId11''
   \<and> images (snd (AddImage (NewDocument zero_Config) ''%PDF'' ''application/pdf'' 300 200))
        ''image1.png''
      = Some \<lparr> Data = ''%PDF'', ContentType = ''application/pdf'', Width = 300, Height = 200 \<rparr>"
proof -
  have h: "''application/pdf'' \<noteq> ''image/jpeg''" "''application/pdf'' \<noteq> ''image/gif''"
    "''application/pdf'' \<noteq> ''image/svg+xml''" by simp_all
  show ?thesis
    using h C9_unrecognized_content_type [OF h, of "NewDocument zero_Config" "''%PDF''" 300 200]
    by (simp add: NewDocument_def eval_fmt)
qed

subsection \<open>C10: text is escaped\<close>

text \<open>
  Claim C10. The character data of the text element of a run is the escaped form of
  the whole text of the run; the escaping is done before the text is split into lines.
  The escaped text is well escaped: it holds no \<^verbatim>\<open><\<close> and no \<^verbatim>\<open>>\<close>, and every \<^verbatim>\<open>&\<close>
  in it starts a character reference. Each \<^verbatim>\<open>&\<close>, \<^verbatim>\<open><\<close> and \<^verbatim>\<open>>\<close> of the text is
  replaced by \<^verbatim>\<open>&amp;\<close>, \<^verbatim>\<open>&lt;\<close> and \<^verbatim>\<open>&gt;\<close>.
\<close>

theorem C10_text_is_escaped:
  assumes "\<not> IsImage r" and "Text r \<noteq> []"
  shows \<open>Run_content r =
       ''\<newline>                <w:t'' @
       (if HasPrefix (Text r) '' '' \<or> HasSuffix (Text r) '' '' \<or> Contains (Text r) ''  ''
        then '' xml:space="preserve"'' else []) @
       ''>'' @ XMLEscape (Text r) @ ''</w:t>''
     \<and> well_escaped (XMLEscape (Text r))
     \<and> XMLEscape (a @ CHR ''&'' # b) = XMLEscape a @ ''&amp;'' @ XMLEscape b
     \<and> XMLEscape (a @ CHR ''<'' # b) = XMLEscape a @ ''&lt;'' @ XMLEscape b
     \<and> XMLEscape (a @ CHR ''>'' # b) = XMLEscape a @ ''&gt;'' @ XMLEscape b\<close>
  using assms
  by (simp add: Run_content_text text_element_XMLEscape XMLEscape_markup del: Contains.simps)
     (simp add: XMLEscape_def well_escaped_escapeText)

theorem C10_text_is_escaped_witness:
  \<open>Run_content (zero_Run\<lparr>Text := ''a<b>&c''\<rparr>) = ''\<newline>                <w:t>a&lt;b&gt;&amp;c</w:t>''
   \<and> well_escaped ''a&lt;b&gt;&amp;c''\<close>
proof -
  have h: "\<not> IsImage (zero_Run\<lparr>Text := ''a<b>&c''\<rparr>)" "Text (zero_Run\<lparr>Text := ''a<b>&c''\<rparr>) \<noteq> []"
    by (simp_all add: zero_Run_def)
  from C10_text_is_escaped [OF h] show ?thesis
    by (simp add: zero_Run_def eval_strings eval_escape)
qed

end
